theory Spec2Isabelle
  imports Complex_Main
begin

section \<open>Numbers\<close>

text \<open>
  The program computes with JavaScript numbers. They are modelled as the mathematical
  reals: \<open>+\<close>, \<open>-\<close>, \<open>*\<close>, \<open>/\<close>, \<open>Math.sqrt\<close>, \<open>Math.cos\<close>, \<open>Math.sin\<close> and
  \<open>Math.abs\<close> are the exact operations, so rounding, overflow to an infinity and NaN are
  outside the model. Every square root the program takes is of a sum of squares or is
  guarded by a sign test, and every division is guarded or is by a nonzero constant,
  except \<open>n1 / n2\<close> in the tracer, whose divisor is 1 or the glass index
  \<open>prismIOR + wavelength\<close>. With a glass index of zero the program's quotient is
  infinite, where division in HOL gives 0: the model stands for the runs with a nonzero
  glass index, and the theorems about the value of that quotient assume it.
\<close>

section \<open>Types (types.ts)\<close>

record Point =
  x :: real
  y :: real

type_synonym Vector = Point

record Ray =
  origin :: Point
  direction :: Vector
  color :: string
  wavelength :: real
  intensity :: real

record PrismData =
  center :: Point
  rotation :: real
  sideLength :: real
  refractiveIndex :: real

record LightSourceData =
  position :: Point
  angle :: real

section \<open>Vector algebra (utils/vector.ts)\<close>

definition add :: "Point \<Rightarrow> Vector \<Rightarrow> Point" where
  "add v1 v2 = \<lparr>x = x v1 + x v2, y = y v1 + y v2\<rparr>"

definition sub :: "Point \<Rightarrow> Point \<Rightarrow> Vector" where
  "sub v1 v2 = \<lparr>x = x v1 - x v2, y = y v1 - y v2\<rparr>"

definition scale :: "Vector \<Rightarrow> real \<Rightarrow> Vector" where
  "scale v s = \<lparr>x = x v * s, y = y v * s\<rparr>"

definition dot :: "Vector \<Rightarrow> Vector \<Rightarrow> real" where
  "dot v1 v2 = x v1 * x v2 + y v1 * y v2"

definition cross :: "Vector \<Rightarrow> Vector \<Rightarrow> real" where
  "cross v1 v2 = x v1 * y v2 - y v1 * x v2"

definition mag :: "Vector \<Rightarrow> real" where
  "mag v = sqrt (x v * x v + y v * y v)"

text \<open>\<open>normalize\<close> of the source; the name is taken by a constant of HOL.\<close>

definition normalize_vec :: "Vector \<Rightarrow> Vector" where
  "normalize_vec v =
     (let m = mag v
      in if m = 0 then \<lparr>x = 0, y = 0\<rparr> else \<lparr>x = x v / m, y = y v / m\<rparr>)"

text \<open>
  A division by zero is no error in JavaScript, but its result is NaN or an infinity and
  not a real number, while HOL's \<open>a / 0\<close> is 0. So that a theorem can tell whether a body
  divides by zero, \<open>js_divide\<close> is the division with no value at a zero divisor, and
  \<open>normalize_checked\<close> is the body of \<open>normalize\<close> once more, with its two divisions
  written with \<open>js_divide\<close>: it has a value exactly when no division by zero is performed.
\<close>

definition js_divide :: "real \<Rightarrow> real \<Rightarrow> real option" where
  "js_divide a b = (if b = 0 then None else Some (a / b))"

definition normalize_checked :: "Vector \<Rightarrow> Vector option" where
  "normalize_checked v =
     (let m = mag v
      in if m = 0 then Some \<lparr>x = 0, y = 0\<rparr>
         else
           (case js_divide (x v) m of
              None \<Rightarrow> None
            | Some a \<Rightarrow>
                (case js_divide (y v) m of
                   None \<Rightarrow> None
                 | Some b \<Rightarrow> Some \<lparr>x = a, y = b\<rparr>)))"

text \<open>\<open>rotate\<close> of the source; the name is taken by a constant of HOL.\<close>

definition rotate_vec :: "Vector \<Rightarrow> real \<Rightarrow> Vector" where
  "rotate_vec v a =
     \<lparr>x = x v * cos a - y v * sin a, y = x v * sin a + y v * cos a\<rparr>"

definition distance :: "Point \<Rightarrow> Point \<Rightarrow> real" where
  "distance p1 p2 = sqrt ((x p2 - x p1) ^ 2 + (y p2 - y p1) ^ 2)"

subsection \<open>Intersection of a ray with a segment\<close>

record Hit =
  point :: Point
  t :: real
  normal :: Vector

text \<open>The source returns \<open>null\<close> for no intersection: \<open>None\<close> here.\<close>

definition intersectRaySegment :: "Point \<Rightarrow> Vector \<Rightarrow> Point \<Rightarrow> Point \<Rightarrow> Hit option" where
  "intersectRaySegment rayOrigin rayDir p1 p2 =
     (let v1 = rayOrigin;
          v2 = add rayOrigin rayDir;
          v3 = p1;
          v4 = p2;
          denom = (x v1 - x v2) * (y v3 - y v4) - (y v1 - y v2) * (x v3 - x v4)
      in if \<bar>denom\<bar> < 0.000001 then None
         else
           let t = ((x v1 - x v3) * (y v3 - y v4) - (y v1 - y v3) * (x v3 - x v4)) / denom;
               u = - ((x v1 - x v2) * (y v1 - y v3) - (y v1 - y v2) * (x v1 - x v3)) / denom
           in if t > 0.001 \<and> u \<ge> 0 \<and> u \<le> 1 then
                let intersectPt = \<lparr>x = x v1 + t * (x v2 - x v1), y = y v1 + t * (y v2 - y v1)\<rparr>;
                    segDir = sub p2 p1;
                    normal = normalize_vec \<lparr>x = - y segDir, y = x segDir\<rparr>;
                    normal = (if dot rayDir normal > 0 then scale normal (- 1) else normal)
                in Some \<lparr>point = intersectPt, t = t, normal = normal\<rparr>
              else None)"

text \<open>
  The locals \<open>denom\<close>, \<open>t\<close> and \<open>u\<close> of \<open>intersectRaySegment\<close>, as functions of its
  arguments, for the statements about them.
\<close>

definition intersect_denom :: "Point \<Rightarrow> Vector \<Rightarrow> Point \<Rightarrow> Point \<Rightarrow> real" where
  "intersect_denom rayOrigin rayDir p1 p2 =
     (let v1 = rayOrigin; v2 = add rayOrigin rayDir; v3 = p1; v4 = p2
      in (x v1 - x v2) * (y v3 - y v4) - (y v1 - y v2) * (x v3 - x v4))"

definition intersect_t :: "Point \<Rightarrow> Vector \<Rightarrow> Point \<Rightarrow> Point \<Rightarrow> real" where
  "intersect_t rayOrigin rayDir p1 p2 =
     (let v1 = rayOrigin; v2 = add rayOrigin rayDir; v3 = p1; v4 = p2
      in ((x v1 - x v3) * (y v3 - y v4) - (y v1 - y v3) * (x v3 - x v4))
           / intersect_denom rayOrigin rayDir p1 p2)"

definition intersect_u :: "Point \<Rightarrow> Vector \<Rightarrow> Point \<Rightarrow> Point \<Rightarrow> real" where
  "intersect_u rayOrigin rayDir p1 p2 =
     (let v1 = rayOrigin; v2 = add rayOrigin rayDir; v3 = p1; v4 = p2
      in - ((x v1 - x v2) * (y v1 - y v3) - (y v1 - y v2) * (x v1 - x v3))
           / intersect_denom rayOrigin rayDir p1 p2)"

section \<open>The spectrum table and the prism (components/OpticsCanvas.tsx)\<close>

record SpectrumSample =
  color :: string
  wlOffset :: real
  intensity :: real

definition SPECTRUM :: "SpectrumSample list" where
  "SPECTRUM =
     [\<lparr>color = ''#ff0000'', wlOffset = - 0.03, intensity = 1.0\<rparr>,
      \<lparr>color = ''#ffa500'', wlOffset = - 0.02, intensity = 0.9\<rparr>,
      \<lparr>color = ''#ffff00'', wlOffset = - 0.01, intensity = 0.9\<rparr>,
      \<lparr>color = ''#00ff00'', wlOffset = 0.00, intensity = 0.9\<rparr>,
      \<lparr>color = ''#00ffff'', wlOffset = 0.01, intensity = 0.9\<rparr>,
      \<lparr>color = ''#0000ff'', wlOffset = 0.02, intensity = 0.9\<rparr>,
      \<lparr>color = ''#8b00ff'', wlOffset = 0.03, intensity = 0.8\<rparr>]"

definition getPrismVertices :: "PrismData \<Rightarrow> Point list" where
  "getPrismVertices p =
     (let radius = sideLength p / sqrt 3;
          angles = [rotation p - pi / 2,
                    rotation p - pi / 2 + (2 * pi) / 3,
                    rotation p - pi / 2 + (4 * pi) / 3]
      in map (\<lambda>a. \<lparr>x = x (center p) + radius * cos a, y = y (center p) + radius * sin a\<rparr>) angles)"

section \<open>The recursive tracer\<close>

text \<open>An entry of the \<open>segments\<close> array.\<close>

record Segment =
  p1 :: Point
  p2 :: Point
  color :: string
  width :: real
  blur :: real

text \<open>\<open>closestHit\<close>: a hit together with the index of the edge it lies on.\<close>

record ClosestHit = Hit +
  boundaryIndex :: nat

text \<open>
  The loop over the three edges: edge \<open>i\<close> runs from \<open>vertices[i]\<close> to
  \<open>vertices[(i + 1) % 3]\<close>; \<open>edgeHit\<close> is the local \<open>hit\<close> of round \<open>i\<close>. A hit
  replaces the closest one so far when there is none yet or when its \<open>t\<close> is strictly
  smaller.
\<close>

definition edgeHit :: "Ray \<Rightarrow> Point list \<Rightarrow> nat \<Rightarrow> Hit option" where
  "edgeHit ray vertices i =
     intersectRaySegment (origin ray) (direction ray) (vertices ! i) (vertices ! ((i + 1) mod 3))"

definition closestHitStep :: "Ray \<Rightarrow> Point list \<Rightarrow> ClosestHit option \<Rightarrow> nat \<Rightarrow> ClosestHit option" where
  "closestHitStep ray vertices closestHit i =
     (case edgeHit ray vertices i of
        None \<Rightarrow> closestHit
      | Some hit \<Rightarrow>
          (case closestHit of
             None \<Rightarrow> Some \<lparr>point = point hit, t = t hit, normal = normal hit, boundaryIndex = i\<rparr>
           | Some c \<Rightarrow>
               if t hit < t c
               then Some \<lparr>point = point hit, t = t hit, normal = normal hit, boundaryIndex = i\<rparr>
               else closestHit))"

definition findClosestHit :: "Ray \<Rightarrow> Point list \<Rightarrow> ClosestHit option" where
  "findClosestHit ray vertices = foldl (closestHitStep ray vertices) None [0, 1, 2]"

text \<open>The segment pushed in the hit case and the one pushed in the escape case.\<close>

definition hitSegment :: "Ray \<Rightarrow> int \<Rightarrow> ClosestHit \<Rightarrow> Segment" where
  "hitSegment ray depth closestHit =
     \<lparr>p1 = origin ray, p2 = point closestHit, color = Ray.color ray,
      width = (if depth = 0 then 3 else 1.5),
      blur = (if depth = 0 then 15 else 8)\<rparr>"

definition escapeSegment :: "Ray \<Rightarrow> int \<Rightarrow> Segment" where
  "escapeSegment ray depth =
     \<lparr>p1 = origin ray, p2 = add (origin ray) (scale (direction ray) 2000), color = Ray.color ray,
      width = (if depth = 0 then 3 else (if depth = 2 then 2 else 6)),
      blur = (if depth = 0 then 10 else 20)\<rparr>"

text \<open>
  The locals of the hit case, each as a function of what it is computed from.
  \<open>prism\<close> and \<open>prismIOR\<close> are the component's state and property, which the source's
  closure reads.
\<close>

definition edgeDir :: "Point list \<Rightarrow> ClosestHit \<Rightarrow> Vector" where
  "edgeDir vertices closestHit =
     (let edgeP1 = vertices ! boundaryIndex closestHit;
          edgeP2 = vertices ! ((boundaryIndex closestHit + 1) mod 3)
      in sub edgeP2 edgeP1)"

definition geoNormal :: "PrismData \<Rightarrow> Point list \<Rightarrow> ClosestHit \<Rightarrow> Vector" where
  "geoNormal prism vertices closestHit =
     (let edgeP1 = vertices ! boundaryIndex closestHit;
          ed = edgeDir vertices closestHit;
          g = normalize_vec \<lparr>x = - y ed, y = x ed\<rparr>;
          toCenter = sub (center prism) edgeP1
      in if dot g toCenter > 0 then scale g (- 1) else g)"

definition entering :: "PrismData \<Rightarrow> Ray \<Rightarrow> Point list \<Rightarrow> ClosestHit \<Rightarrow> bool" where
  "entering prism ray vertices closestHit =
     (dot (direction ray) (geoNormal prism vertices closestHit) < 0)"

definition n1 :: "real \<Rightarrow> PrismData \<Rightarrow> Ray \<Rightarrow> Point list \<Rightarrow> ClosestHit \<Rightarrow> real" where
  "n1 prismIOR prism ray vertices closestHit =
     (if \<not> entering prism ray vertices closestHit then prismIOR + wavelength ray else 1.0)"

definition n2 :: "real \<Rightarrow> PrismData \<Rightarrow> Ray \<Rightarrow> Point list \<Rightarrow> ClosestHit \<Rightarrow> real" where
  "n2 prismIOR prism ray vertices closestHit =
     (if \<not> entering prism ray vertices closestHit then 1.0 else prismIOR + wavelength ray)"

definition orientedN :: "PrismData \<Rightarrow> Ray \<Rightarrow> Point list \<Rightarrow> ClosestHit \<Rightarrow> Vector" where
  "orientedN prism ray vertices closestHit =
     (if entering prism ray vertices closestHit then geoNormal prism vertices closestHit
      else scale (geoNormal prism vertices closestHit) (- 1))"

definition eta :: "real \<Rightarrow> PrismData \<Rightarrow> Ray \<Rightarrow> Point list \<Rightarrow> ClosestHit \<Rightarrow> real" where
  "eta prismIOR prism ray vertices closestHit =
     n1 prismIOR prism ray vertices closestHit / n2 prismIOR prism ray vertices closestHit"

definition c1 :: "PrismData \<Rightarrow> Ray \<Rightarrow> Point list \<Rightarrow> ClosestHit \<Rightarrow> real" where
  "c1 prism ray vertices closestHit =
     - dot (direction ray) (orientedN prism ray vertices closestHit)"

definition cs2 :: "real \<Rightarrow> PrismData \<Rightarrow> Ray \<Rightarrow> Point list \<Rightarrow> ClosestHit \<Rightarrow> real" where
  "cs2 prismIOR prism ray vertices closestHit =
     (let e = eta prismIOR prism ray vertices closestHit;
          c = c1 prism ray vertices closestHit
      in 1 - e * e * (1 - c * c))"

definition reflectedDir :: "PrismData \<Rightarrow> Ray \<Rightarrow> Point list \<Rightarrow> ClosestHit \<Rightarrow> Vector" where
  "reflectedDir prism ray vertices closestHit =
     (let L = direction ray; oN = orientedN prism ray vertices closestHit
      in sub L (scale oN (2 * dot L oN)))"

definition refractDir :: "real \<Rightarrow> PrismData \<Rightarrow> Ray \<Rightarrow> Point list \<Rightarrow> ClosestHit \<Rightarrow> Vector" where
  "refractDir prismIOR prism ray vertices closestHit =
     (let L = direction ray; oN = orientedN prism ray vertices closestHit;
          e = eta prismIOR prism ray vertices closestHit
      in add (scale L e)
             (scale oN (e * c1 prism ray vertices closestHit
                        - sqrt (cs2 prismIOR prism ray vertices closestHit))))"

text \<open>The ray handed to the recursive call, from the new direction before normalisation.\<close>

definition childRay :: "Ray \<Rightarrow> ClosestHit \<Rightarrow> Vector \<Rightarrow> Ray" where
  "childRay ray closestHit newDir =
     \<lparr>origin = add (point closestHit) (scale newDir 0.01),
      direction = normalize_vec newDir,
      Ray.color = Ray.color ray,
      wavelength = wavelength ray,
      Ray.intensity = Ray.intensity ray\<rparr>"

text \<open>
  \<open>traceRay\<close> mutates the array \<open>segments\<close>; the model takes the array and returns it
  updated. The depth is a whole number in every call the program makes (0 from the
  rendering pass, \<open>depth + 1\<close> from the tracer itself): an integer here. The locals
  \<open>N\<close> and \<open>dotNL\<close> of the source are computed and never read, and are left out.

  Reading \<open>vertices[i]\<close> past the end of the array gives \<open>undefined\<close>, and
  \<open>intersectRaySegment\<close> then throws a TypeError on reading its coordinate: the loop reads
  the indices 0, 1 and 2 whatever the hits are, so a call that passes the depth test with
  fewer than three vertices throws before it pushes anything. The result is the
  exception, if any, and the array as the call leaves it.
\<close>

datatype error = TypeError

function traceRay :: "real \<Rightarrow> PrismData \<Rightarrow> Ray \<Rightarrow> int \<Rightarrow> Point list \<Rightarrow> Segment list
    \<Rightarrow> error option \<times> Segment list" where
  "traceRay prismIOR prism ray depth vertices segments =
     (if depth > 4 then (None, segments)
      else if length vertices < 3 then (Some TypeError, segments)
      else
        (case findClosestHit ray vertices of
           Some closestHit \<Rightarrow>
             (let segments = segments @ [hitSegment ray depth closestHit]
              in if cs2 prismIOR prism ray vertices closestHit < 0
                 then traceRay prismIOR prism
                        (childRay ray closestHit (reflectedDir prism ray vertices closestHit))
                        (depth + 1) vertices segments
                 else traceRay prismIOR prism
                        (childRay ray closestHit (refractDir prismIOR prism ray vertices closestHit))
                        (depth + 1) vertices segments)
         | None \<Rightarrow> (None, segments @ [escapeSegment ray depth])))"
  by pat_completeness auto
termination
  by (relation "measure (\<lambda>(prismIOR, prism, ray, depth, vertices, segments). nat (5 - depth))") auto

declare traceRay.simps [simp del]

text \<open>
  The same body with a bound on the nesting of calls: \<open>traceRay_fuel n\<close> allows \<open>n\<close>
  nested activations and is \<open>None\<close> when a further one would be needed.
\<close>

fun traceRay_fuel :: "nat \<Rightarrow> real \<Rightarrow> PrismData \<Rightarrow> Ray \<Rightarrow> int \<Rightarrow> Point list \<Rightarrow> Segment list
    \<Rightarrow> (error option \<times> Segment list) option" where
  "traceRay_fuel 0 prismIOR prism ray depth vertices segments = None"
| "traceRay_fuel (Suc n) prismIOR prism ray depth vertices segments =
     (if depth > 4 then Some (None, segments)
      else if length vertices < 3 then Some (Some TypeError, segments)
      else
        (case findClosestHit ray vertices of
           Some closestHit \<Rightarrow>
             (let segments = segments @ [hitSegment ray depth closestHit]
              in if cs2 prismIOR prism ray vertices closestHit < 0
                 then traceRay_fuel n prismIOR prism
                        (childRay ray closestHit (reflectedDir prism ray vertices closestHit))
                        (depth + 1) vertices segments
                 else traceRay_fuel n prismIOR prism
                        (childRay ray closestHit (refractDir prismIOR prism ray vertices closestHit))
                        (depth + 1) vertices segments)
         | None \<Rightarrow> Some (None, segments @ [escapeSegment ray depth])))"

declare traceRay_fuel.simps [simp del]

text \<open>
  Which calls the tracer makes, and with which arguments, cannot be read off the array it
  returns: the intensity of a ray, for one, is never read. \<open>traceRay_calls\<close> is the same
  body once more, returning the log of the activations in the order they start, each
  with its ray, its depth and the array as it finds it (the vertices are the same in all
  of them). \<open>pushed\<close> is the segment an activation pushes itself, if any.
\<close>

function traceRay_calls :: "real \<Rightarrow> PrismData \<Rightarrow> Ray \<Rightarrow> int \<Rightarrow> Point list \<Rightarrow> Segment list
    \<Rightarrow> (Ray \<times> int \<times> Segment list) list" where
  "traceRay_calls prismIOR prism ray depth vertices segments =
     (ray, depth, segments) #
     (if depth > 4 then []
      else if length vertices < 3 then []
      else
        (case findClosestHit ray vertices of
           Some closestHit \<Rightarrow>
             (let segments = segments @ [hitSegment ray depth closestHit]
              in if cs2 prismIOR prism ray vertices closestHit < 0
                 then traceRay_calls prismIOR prism
                        (childRay ray closestHit (reflectedDir prism ray vertices closestHit))
                        (depth + 1) vertices segments
                 else traceRay_calls prismIOR prism
                        (childRay ray closestHit (refractDir prismIOR prism ray vertices closestHit))
                        (depth + 1) vertices segments)
         | None \<Rightarrow> []))"
  by pat_completeness auto
termination
  by (relation "measure (\<lambda>(prismIOR, prism, ray, depth, vertices, segments). nat (5 - depth))") auto

declare traceRay_calls.simps [simp del]

definition pushed :: "Point list \<Rightarrow> Ray \<times> int \<times> Segment list \<Rightarrow> Segment list" where
  "pushed vertices call =
     (case call of
        (ray, depth, segments) \<Rightarrow>
          if depth > 4 then []
          else if length vertices < 3 then []
          else
            (case findClosestHit ray vertices of
               Some closestHit \<Rightarrow> [hitSegment ray depth closestHit]
             | None \<Rightarrow> [escapeSegment ray depth]))"

text \<open>The ray the rendering pass starts for one spectrum sample, at depth 0.\<close>

definition initialRay :: "LightSourceData \<Rightarrow> SpectrumSample \<Rightarrow> Ray" where
  "initialRay light spec =
     \<lparr>origin = position light,
      direction = \<lparr>x = cos (angle light), y = sin (angle light)\<rparr>,
      Ray.color = SpectrumSample.color spec,
      wavelength = wlOffset spec,
      Ray.intensity = SpectrumSample.intensity spec\<rparr>"

section \<open>The triangle as a point set\<close>

text \<open>
  The point of the triangle spanned by the first three vertices with barycentric weights
  \<open>a\<close>, \<open>b\<close>, \<open>c\<close>; a point is outside the triangle when no weights that are
  non-negative and sum to 1 give it.
\<close>

definition triangle_point :: "Point list \<Rightarrow> real \<Rightarrow> real \<Rightarrow> real \<Rightarrow> Point" where
  "triangle_point vertices a b c =
     \<lparr>x = a * x (vertices ! 0) + b * x (vertices ! 1) + c * x (vertices ! 2),
      y = a * y (vertices ! 0) + b * y (vertices ! 1) + c * y (vertices ! 2)\<rparr>"

definition outside_triangle :: "Point list \<Rightarrow> Point \<Rightarrow> bool" where
  "outside_triangle vertices q \<longleftrightarrow>
     (\<forall>a b c. 0 \<le> a \<and> 0 \<le> b \<and> 0 \<le> c \<and> a + b + c = 1 \<longrightarrow> q \<noteq> triangle_point vertices a b c)"

section \<open>An example scene\<close>

text \<open>
  A triangle with a vertical edge from (1, -1) to (1, 3) and third vertex (-3, 0), glass of
  index 1.5, and three green rays: two start inside the glass at (0, 0), one straight at
  the vertical edge and one obliquely at it; the third starts outside at (2, 0) and points
  away from the triangle.
\<close>

abbreviation ex_vertices :: "Point list" where
  "ex_vertices \<equiv> [\<lparr>x = 1, y = - 1\<rparr>, \<lparr>x = 1, y = 3\<rparr>, \<lparr>x = - 3, y = 0\<rparr>]"

abbreviation ex_prism :: PrismData where
  "ex_prism \<equiv> \<lparr>center = \<lparr>x = - (1 / 3), y = 2 / 3\<rparr>, rotation = 0, sideLength = 4,
               refractiveIndex = 3 / 2\<rparr>"

abbreviation ex_ray :: "Point \<Rightarrow> Vector \<Rightarrow> Ray" where
  "ex_ray ro rd \<equiv> \<lparr>origin = ro, direction = rd, Ray.color = ''#00ff00'', wavelength = 0,
                  Ray.intensity = 9 / 10\<rparr>"

abbreviation ex_straight :: Ray where
  "ex_straight \<equiv> ex_ray \<lparr>x = 0, y = 0\<rparr> \<lparr>x = 1, y = 0\<rparr>"

abbreviation ex_oblique :: Ray where
  "ex_oblique \<equiv> ex_ray \<lparr>x = 0, y = 0\<rparr> \<lparr>x = 3 / 5, y = 4 / 5\<rparr>"

abbreviation ex_away :: Ray where
  "ex_away \<equiv> ex_ray \<lparr>x = 2, y = 0\<rparr> \<lparr>x = 1, y = 0\<rparr>"

text \<open>
  A fourth ray starts outside at (2, 1) and enters the glass through the vertical edge.
  \<open>ex_hit q tv\<close> is a closest hit on that edge (edge 0) at the point \<open>q\<close> with ray
  parameter \<open>tv\<close>; the normal returned for a ray that comes from inside is (-1, 0).
\<close>

abbreviation ex_entering :: Ray where
  "ex_entering \<equiv> ex_ray \<lparr>x = 2, y = 1\<rparr> \<lparr>x = - 1, y = 0\<rparr>"

abbreviation ex_hit :: "Point \<Rightarrow> real \<Rightarrow> Vector \<Rightarrow> ClosestHit" where
  "ex_hit q tv nv \<equiv> \<lparr>point = q, t = tv, normal = nv, boundaryIndex = 0\<rparr>"

text \<open>
  A fifth ray starts outside at (2, 0) and enters the glass through the vertical edge at
  an angle; \<open>ex_violet\<close> is the same ray with the wavelength offset of the violet sample.
\<close>

abbreviation ex_slanted :: Ray where
  "ex_slanted \<equiv> ex_ray \<lparr>x = 2, y = 0\<rparr> \<lparr>x = - (4 / 5), y = 3 / 5\<rparr>"

abbreviation ex_violet :: Ray where
  "ex_violet \<equiv> \<lparr>origin = \<lparr>x = 2, y = 0\<rparr>, direction = \<lparr>x = - (4 / 5), y = 3 / 5\<rparr>,
                 Ray.color = ''#8b00ff'', wavelength = 3 / 100, Ray.intensity = 4 / 5\<rparr>"

text \<open>
  \<open>ex_red\<close> is the slanted ray with the offset of the red sample, and
  \<open>ex_entering_violet\<close> the ray that enters straight, with the offset of the violet one.
\<close>

abbreviation ex_red :: Ray where
  "ex_red \<equiv> \<lparr>origin = \<lparr>x = 2, y = 0\<rparr>, direction = \<lparr>x = - (4 / 5), y = 3 / 5\<rparr>,
              Ray.color = ''#ff0000'', wavelength = - (3 / 100), Ray.intensity = 1\<rparr>"

abbreviation ex_entering_violet :: Ray where
  "ex_entering_violet \<equiv> \<lparr>origin = \<lparr>x = 2, y = 1\<rparr>, direction = \<lparr>x = - 1, y = 0\<rparr>,
                          Ray.color = ''#8b00ff'', wavelength = 3 / 100, Ray.intensity = 4 / 5\<rparr>"

text \<open>A prism of side 2 centered at (1, 1), not rotated.\<close>

abbreviation ex_equilateral :: PrismData where
  "ex_equilateral \<equiv> \<lparr>center = \<lparr>x = 1, y = 1\<rparr>, rotation = 0, sideLength = 2,
                     refractiveIndex = 3 / 2\<rparr>"

section \<open>Vector algebra: facts\<close>

lemma mag_nonneg: "0 \<le> mag v"
  by (simp add: mag_def)

lemma mag_sq: "mag v * mag v = x v * x v + y v * y v"
  by (simp add: mag_def)

lemma mag_normalize_vec: "mag v \<noteq> 0 \<Longrightarrow> mag (normalize_vec v) = 1"
proof -
  assume nz: "mag v \<noteq> 0"
  let ?m = "mag v"
  have "(x v / ?m) * (x v / ?m) + (y v / ?m) * (y v / ?m) = (x v * x v + y v * y v) / (?m * ?m)"
    by (simp add: add_divide_distrib)
  also have "\<dots> = 1" using nz by (simp add: mag_sq [symmetric])
  finally show ?thesis
    using nz by (simp add: normalize_vec_def mag_def [of "\<lparr>x = _, y = _\<rparr>"] Let_def)
qed

lemma mag_3_4: "mag \<lparr>x = 3, y = 4\<rparr> = 5"
proof -
  have "sqrt 25 = sqrt (5 ^ 2)" by simp
  then show ?thesis unfolding mag_def by (simp del: real_sqrt_eq_iff)
qed

lemma normalize_checked_eq: "normalize_checked v = Some (normalize_vec v)"
  by (simp add: normalize_checked_def normalize_vec_def js_divide_def Let_def)

text \<open>
  Claim C8. \<open>normalize\<close> returns the zero vector when the magnitude of its input is zero;
  for an input of nonzero magnitude it returns the input divided by its magnitude, and
  that vector has magnitude 1. The body with the checked division has a value on every
  input, the value of \<open>normalize\<close>: it never divides by a zero magnitude, although at
  magnitude zero each of its two divisions would be one by zero.
\<close>

theorem normalize_vec_total:
  "normalize_checked v = Some (normalize_vec v) \<and>
   (mag v = 0 \<longrightarrow>
      js_divide (x v) (mag v) = None \<and> js_divide (y v) (mag v) = None \<and>
      normalize_checked v = Some \<lparr>x = 0, y = 0\<rparr> \<and>
      normalize_vec v = \<lparr>x = 0, y = 0\<rparr>) \<and>
   (mag v \<noteq> 0 \<longrightarrow>
      js_divide (x v) (mag v) = Some (x v / mag v) \<and>
      js_divide (y v) (mag v) = Some (y v / mag v) \<and>
      normalize_vec v = \<lparr>x = x v / mag v, y = y v / mag v\<rparr> \<and> mag (normalize_vec v) = 1)"
  using mag_normalize_vec [of v] normalize_checked_eq [of v]
  by (simp add: normalize_vec_def js_divide_def Let_def)

theorem normalize_vec_total_witness:
  "mag \<lparr>x = 0, y = 0\<rparr> = 0 \<and>
   js_divide (x \<lparr>x = 0, y = 0\<rparr>) (mag \<lparr>x = 0, y = 0\<rparr>) = None \<and>
   normalize_checked \<lparr>x = 0, y = 0\<rparr> = Some \<lparr>x = 0, y = 0\<rparr> \<and>
   normalize_vec \<lparr>x = 0, y = 0\<rparr> = \<lparr>x = 0, y = 0\<rparr> \<and>
   mag \<lparr>x = 3, y = 4\<rparr> \<noteq> 0 \<and>
   normalize_checked \<lparr>x = 3, y = 4\<rparr> = Some \<lparr>x = 3 / 5, y = 4 / 5\<rparr> \<and>
   normalize_vec \<lparr>x = 3, y = 4\<rparr> = \<lparr>x = 3 / 5, y = 4 / 5\<rparr> \<and>
   mag (normalize_vec \<lparr>x = 3, y = 4\<rparr>) = 1"
proof -
  note Z = normalize_vec_total [of "\<lparr>x = 0, y = 0\<rparr>"]
  note P = normalize_vec_total [of "\<lparr>x = 3, y = 4\<rparr>"]
  have z: "mag \<lparr>x = 0, y = 0\<rparr> = 0" by (simp add: mag_def)
  have p: "mag \<lparr>x = 3, y = 4\<rparr> \<noteq> 0" by (simp add: mag_3_4)
  note Z1 = Z [THEN conjunct2, THEN conjunct1, THEN mp, OF z]
  note P0 = P [THEN conjunct1]
  note P1 = P [THEN conjunct2, THEN conjunct2, THEN mp, OF p]
  from P1 have pv: "normalize_vec \<lparr>x = 3, y = 4\<rparr> = \<lparr>x = 3 / 5, y = 4 / 5\<rparr>"
    by (simp add: mag_3_4)
  from P0 pv have pc: "normalize_checked \<lparr>x = 3, y = 4\<rparr> = Some \<lparr>x = 3 / 5, y = 4 / 5\<rparr>"
    by simp
  from z p Z1 P1 pv pc show ?thesis by simp
qed

section \<open>Intersection: facts\<close>

lemma mag_zero_iff: "mag v = 0 \<longleftrightarrow> x v = 0 \<and> y v = 0"
proof -
  have "x v * x v + y v * y v = 0 \<longleftrightarrow> x v = 0 \<and> y v = 0"
    by (simp add: sum_squares_eq_zero_iff)
  then show ?thesis by (simp add: mag_def)
qed

lemma mag_scale_neg: "mag (scale v (- 1)) = mag v"
  by (simp add: mag_def scale_def)

lemma dot_scale_neg: "dot d (scale v (- 1)) = - dot d v"
  by (simp add: dot_def scale_def)

lemma dot_scale_neg_left: "dot (scale v (- 1)) d = - dot v d"
  by (simp add: dot_def scale_def)

lemma dot_normalize_perp: "dot (normalize_vec \<lparr>x = - y v, y = x v\<rparr>) v = 0"
  by (simp add: normalize_vec_def dot_def Let_def)

lemma intersect_None_iff:
  "intersectRaySegment ro rd a b = None \<longleftrightarrow>
     \<bar>intersect_denom ro rd a b\<bar> < 0.000001 \<or> \<not> intersect_t ro rd a b > 0.001 \<or>
     intersect_u ro rd a b < 0 \<or> intersect_u ro rd a b > 1"
  by (auto simp: intersectRaySegment_def intersect_denom_def intersect_t_def intersect_u_def Let_def)

lemma intersect_Some_t:
  "intersectRaySegment ro rd a b = Some h \<Longrightarrow> t h = intersect_t ro rd a b"
  by (auto simp: intersectRaySegment_def intersect_denom_def intersect_t_def Let_def split: if_splits)

lemma intersect_Some_point:
  "intersectRaySegment ro rd a b = Some h \<Longrightarrow> point h = add ro (scale rd (t h))"
  by (auto simp: intersectRaySegment_def add_def scale_def Let_def split: if_splits)

lemma intersect_Some_normal:
  "intersectRaySegment ro rd a b = Some h \<Longrightarrow>
     normal h = (let n = normalize_vec \<lparr>x = - y (sub b a), y = x (sub b a)\<rparr>
                 in if dot rd n > 0 then scale n (- 1) else n)"
  by (auto simp: intersectRaySegment_def Let_def split: if_splits)

lemma intersect_Some_nondegenerate:
  assumes "intersectRaySegment ro rd a b = Some h"
  shows "mag \<lparr>x = - y (sub b a), y = x (sub b a)\<rparr> \<noteq> 0"
proof
  assume "mag \<lparr>x = - y (sub b a), y = x (sub b a)\<rparr> = 0"
  then have "x a = x b" "y a = y b" by (simp_all add: mag_zero_iff sub_def)
  then have "intersect_denom ro rd a b = 0" by (simp add: intersect_denom_def Let_def)
  then have "intersectRaySegment ro rd a b = None" by (simp add: intersect_None_iff)
  with assms show False by simp
qed


text \<open>
  Claim C3. \<open>intersectRaySegment\<close> returns no intersection exactly when the magnitude
  of the determinant is below 1e-6, or the ray parameter \<open>t\<close> fails \<open>t > 0.001\<close>, or the
  segment parameter \<open>u\<close> is outside [0, 1]. Otherwise it returns a hit: its point is
  origin + t * direction, its \<open>t\<close> is the solved ray parameter, and its normal has
  magnitude 1, is perpendicular to the segment and has a non-positive dot product with the
  ray direction.
\<close>

theorem intersectRaySegment_result:
  "(intersectRaySegment ro rd a b = None \<longleftrightarrow>
      \<bar>intersect_denom ro rd a b\<bar> < 0.000001 \<or> \<not> intersect_t ro rd a b > 0.001 \<or>
      intersect_u ro rd a b < 0 \<or> intersect_u ro rd a b > 1) \<and>
   (\<forall>h. intersectRaySegment ro rd a b = Some h \<longrightarrow>
      point h = add ro (scale rd (intersect_t ro rd a b)) \<and>
      t h = intersect_t ro rd a b \<and>
      mag (normal h) = 1 \<and>
      dot (normal h) (sub b a) = 0 \<and>
      dot rd (normal h) \<le> 0)"
proof (intro conjI allI impI)
  show "intersectRaySegment ro rd a b = None \<longleftrightarrow>
      \<bar>intersect_denom ro rd a b\<bar> < 0.000001 \<or> \<not> intersect_t ro rd a b > 0.001 \<or>
      intersect_u ro rd a b < 0 \<or> intersect_u ro rd a b > 1"
    by (rule intersect_None_iff)
next
  fix h assume h: "intersectRaySegment ro rd a b = Some h"
  let ?n = "normalize_vec \<lparr>x = - y (sub b a), y = x (sub b a)\<rparr>"
  have n: "normal h = (if dot rd ?n > 0 then scale ?n (- 1) else ?n)"
    using intersect_Some_normal [OF h] by (simp add: Let_def)
  have unit: "mag ?n = 1"
    using intersect_Some_nondegenerate [OF h] by (rule mag_normalize_vec)
  show "t h = intersect_t ro rd a b" using h by (rule intersect_Some_t)
  then show "point h = add ro (scale rd (intersect_t ro rd a b))"
    using intersect_Some_point [OF h] by simp
  show "mag (normal h) = 1" using unit by (simp add: n mag_scale_neg)
  show "dot (normal h) (sub b a) = 0"
    by (simp add: n dot_scale_neg_left dot_normalize_perp)
  show "dot rd (normal h) \<le> 0" by (simp add: n dot_scale_neg)
qed

lemma mag_m2_0: "mag \<lparr>x = - 2, y = 0\<rparr> = 2"
proof -
  have "sqrt 4 = sqrt (2 ^ 2)" by simp
  then show ?thesis unfolding mag_def by (simp del: real_sqrt_eq_iff)
qed

lemma intersect_example:
  "intersectRaySegment \<lparr>x = 0, y = 0\<rparr> \<lparr>x = 1, y = 0\<rparr> \<lparr>x = 1, y = - 1\<rparr> \<lparr>x = 1, y = 1\<rparr> =
     Some \<lparr>point = \<lparr>x = 1, y = 0\<rparr>, t = 1, normal = \<lparr>x = - 1, y = 0\<rparr>\<rparr>"
  by (simp add: intersectRaySegment_def add_def sub_def Let_def normalize_vec_def mag_m2_0
      dot_def scale_def)

theorem intersectRaySegment_result_witness:
  "intersectRaySegment \<lparr>x = 0, y = 0\<rparr> \<lparr>x = 1, y = 0\<rparr> \<lparr>x = 1, y = - 1\<rparr> \<lparr>x = 1, y = 1\<rparr> =
     Some \<lparr>point = \<lparr>x = 1, y = 0\<rparr>, t = 1, normal = \<lparr>x = - 1, y = 0\<rparr>\<rparr> \<and>
   intersect_t \<lparr>x = 0, y = 0\<rparr> \<lparr>x = 1, y = 0\<rparr> \<lparr>x = 1, y = - 1\<rparr> \<lparr>x = 1, y = 1\<rparr> = 1 \<and>
   \<lparr>x = 1, y = 0\<rparr> = add \<lparr>x = 0, y = 0\<rparr> (scale \<lparr>x = 1, y = 0\<rparr> 1) \<and>
   mag \<lparr>x = - 1, y = 0 :: real\<rparr> = 1 \<and>
   dot \<lparr>x = - 1, y = 0\<rparr> (sub \<lparr>x = 1, y = 1\<rparr> \<lparr>x = 1, y = - 1\<rparr>) = 0 \<and>
   dot \<lparr>x = 1, y = 0\<rparr> \<lparr>x = - 1, y = 0\<rparr> \<le> 0"
  using intersectRaySegment_result [of "\<lparr>x = 0, y = 0\<rparr>" "\<lparr>x = 1, y = 0\<rparr>" "\<lparr>x = 1, y = - 1\<rparr>" "\<lparr>x = 1, y = 1\<rparr>"]
    intersect_example
  by auto

section \<open>The tracer: facts\<close>

subsection \<open>The closest hit\<close>

lemma findClosestHit_unfold:
  "findClosestHit ray vertices =
     closestHitStep ray vertices
       (closestHitStep ray vertices (closestHitStep ray vertices None 0) 1) 2"
  by (simp add: findClosestHit_def)

lemma less_3_cases: "(i::nat) < 3 \<longleftrightarrow> i = 0 \<or> i = 1 \<or> i = 2"
  by auto

lemma findClosestHit_None_iff:
  "findClosestHit ray vertices = None \<longleftrightarrow> (\<forall>i<3. edgeHit ray vertices i = None)"
  unfolding findClosestHit_unfold less_3_cases closestHitStep_def
  by (auto split: option.splits)

lemma findClosestHit_Some:
  assumes "findClosestHit ray vertices = Some c"
  shows "boundaryIndex c < 3"
    and "edgeHit ray vertices (boundaryIndex c) = Some \<lparr>point = point c, t = t c, normal = normal c\<rparr>"
    and "\<forall>j<3. \<forall>h. edgeHit ray vertices j = Some h \<longrightarrow> t c \<le> t h"
  using assms unfolding findClosestHit_unfold less_3_cases closestHitStep_def
  by (auto split: option.splits if_splits)

subsection \<open>Unfolding the tracer\<close>

lemma traceRay_deep: "4 < depth \<Longrightarrow> traceRay prismIOR prism ray depth vertices segments = (None, segments)"
  by (simp add: traceRay.simps)

lemma traceRay_short:
  "depth \<le> 4 \<Longrightarrow> length vertices < 3 \<Longrightarrow>
     traceRay prismIOR prism ray depth vertices segments = (Some TypeError, segments)"
  by (simp add: traceRay.simps)

lemma traceRay_escape:
  "depth \<le> 4 \<Longrightarrow> 3 \<le> length vertices \<Longrightarrow> findClosestHit ray vertices = None \<Longrightarrow>
     traceRay prismIOR prism ray depth vertices segments = (None, segments @ [escapeSegment ray depth])"
  by (simp add: traceRay.simps)

lemma traceRay_hit:
  "depth \<le> 4 \<Longrightarrow> 3 \<le> length vertices \<Longrightarrow> findClosestHit ray vertices = Some c \<Longrightarrow>
     traceRay prismIOR prism ray depth vertices segments =
       traceRay prismIOR prism
         (childRay ray c (if cs2 prismIOR prism ray vertices c < 0
                          then reflectedDir prism ray vertices c
                          else refractDir prismIOR prism ray vertices c))
         (depth + 1) vertices (segments @ [hitSegment ray depth c])"
  by (subst traceRay.simps) (simp add: Let_def)

lemma traceRay_fuel_hit:
  "depth \<le> 4 \<Longrightarrow> 3 \<le> length vertices \<Longrightarrow> findClosestHit ray vertices = Some c \<Longrightarrow>
     traceRay_fuel (Suc n) prismIOR prism ray depth vertices segments =
       traceRay_fuel n prismIOR prism
         (childRay ray c (if cs2 prismIOR prism ray vertices c < 0
                          then reflectedDir prism ray vertices c
                          else refractDir prismIOR prism ray vertices c))
         (depth + 1) vertices (segments @ [hitSegment ray depth c])"
  by (simp add: traceRay_fuel.simps Let_def)

lemma traceRay_fuel_escape:
  "depth \<le> 4 \<Longrightarrow> 3 \<le> length vertices \<Longrightarrow> findClosestHit ray vertices = None \<Longrightarrow>
     traceRay_fuel (Suc n) prismIOR prism ray depth vertices segments =
       Some (None, segments @ [escapeSegment ray depth])"
  by (simp add: traceRay_fuel.simps)

lemma traceRay_appends:
  "\<exists>ext. snd (traceRay prismIOR prism ray depth vertices segments) = segments @ ext \<and>
         int (length ext) \<le> max 0 (5 - depth)"
proof (induction prismIOR prism ray depth vertices segments rule: traceRay.induct)
  case (1 prismIOR prism ray depth vertices segments)
  show ?case
  proof (cases "4 < depth")
    case True
    then show ?thesis by (simp add: traceRay_deep)
  next
    case deep: False
    show ?thesis
    proof (cases "length vertices < 3")
      case True
      with deep show ?thesis by (simp add: traceRay_short)
    next
      case long: False
      show ?thesis
      proof (cases "findClosestHit ray vertices")
        case None
        with deep long show ?thesis by (simp add: traceRay_escape)
      next
        case (Some c)
        let ?segs = "segments @ [hitSegment ray depth c]"
        let ?child = "childRay ray c (if cs2 prismIOR prism ray vertices c < 0
                          then reflectedDir prism ray vertices c
                          else refractDir prismIOR prism ray vertices c)"
        have step: "traceRay prismIOR prism ray depth vertices segments =
                    traceRay prismIOR prism ?child (depth + 1) vertices ?segs"
          using deep long Some by (simp add: traceRay_hit)
        have "\<exists>ext. snd (traceRay prismIOR prism ?child (depth + 1) vertices ?segs) = ?segs @ ext \<and>
                int (length ext) \<le> max 0 (5 - (depth + 1))"
        proof (cases "cs2 prismIOR prism ray vertices c < 0")
          case True
          with "1.IH"(1) [OF deep long Some refl True] show ?thesis by simp
        next
          case False
          with "1.IH"(2) [OF deep long Some refl False] show ?thesis by simp
        qed
        then obtain ext where ext: "snd (traceRay prismIOR prism ?child (depth + 1) vertices ?segs) = ?segs @ ext"
          and len: "int (length ext) \<le> max 0 (5 - (depth + 1))" by blast
        have "snd (traceRay prismIOR prism ray depth vertices segments) = segments @ (hitSegment ray depth c # ext)"
          using step ext by simp
        moreover have "int (length (hitSegment ray depth c # ext)) \<le> max 0 (5 - depth)"
          using len deep by simp
        ultimately show ?thesis by blast
      qed
    qed
  qed
qed

lemma traceRay_fuel_enough:
  "nat (5 - depth) < n \<Longrightarrow>
     traceRay_fuel n prismIOR prism ray depth vertices segments =
       Some (traceRay prismIOR prism ray depth vertices segments)"
proof (induction n arbitrary: ray depth segments)
  case 0
  then show ?case by simp
next
  case (Suc n)
  show ?case
  proof (cases "4 < depth \<or> length vertices < 3 \<or> findClosestHit ray vertices = None")
    case True
    then show ?thesis by (auto simp: traceRay.simps traceRay_fuel.simps)
  next
    case False
    then obtain c where c: "findClosestHit ray vertices = Some c" and d: "depth \<le> 4" and l: "3 \<le> length vertices"
      by auto
    from Suc.prems d have "nat (5 - (depth + 1)) < n" by simp
    note IH = Suc.IH [OF this]
    show ?thesis
      using c d l by (simp add: traceRay_hit traceRay_fuel.simps IH Let_def)
  qed
qed

subsection \<open>A hit lies on its edge\<close>

lemma intersect_Some_bounds:
  assumes "intersectRaySegment ro rd a b = Some h"
  shows "\<bar>intersect_denom ro rd a b\<bar> \<ge> 0.000001" "t h > 0.001"
    "0 \<le> intersect_u ro rd a b" "intersect_u ro rd a b \<le> 1"
proof -
  have *: "\<not> (\<bar>intersect_denom ro rd a b\<bar> < 0.000001 \<or> \<not> intersect_t ro rd a b > 0.001 \<or>
     intersect_u ro rd a b < 0 \<or> intersect_u ro rd a b > 1)"
    using assms intersect_None_iff [of ro rd a b] by auto
  from * show "\<bar>intersect_denom ro rd a b\<bar> \<ge> 0.000001" by simp
  from * show "t h > 0.001" by (simp add: intersect_Some_t [OF assms])
  from * show "0 \<le> intersect_u ro rd a b" "intersect_u ro rd a b \<le> 1" by simp_all
qed

lemma intersect_solves:
  assumes "intersect_denom ro rd a b \<noteq> 0"
  shows "x ro + intersect_t ro rd a b * x rd = x a + intersect_u ro rd a b * (x b - x a)"
    and "y ro + intersect_t ro rd a b * y rd = y a + intersect_u ro rd a b * (y b - y a)"
proof -
  let ?D = "intersect_denom ro rd a b"
  have D: "?D = x rd * (y b - y a) - y rd * (x b - x a)"
    by (simp add: intersect_denom_def add_def Let_def algebra_simps)
  have T: "intersect_t ro rd a b * ?D = (x ro - x a) * (y a - y b) - (y ro - y a) * (x a - x b)"
    using assms by (simp add: intersect_t_def Let_def)
  have "intersect_u ro rd a b = (x rd * (y ro - y a) - y rd * (x ro - x a)) / ?D"
    by (simp add: intersect_u_def add_def Let_def)
  then have U: "intersect_u ro rd a b * ?D = x rd * (y ro - y a) - y rd * (x ro - x a)"
    using assms by simp
  have "(x ro + intersect_t ro rd a b * x rd) * ?D = (x a + intersect_u ro rd a b * (x b - x a)) * ?D"
  proof -
    have "(x ro + intersect_t ro rd a b * x rd) * ?D = x ro * ?D + (intersect_t ro rd a b * ?D) * x rd"
      by (simp add: algebra_simps)
    also have "\<dots> = x a * ?D + (intersect_u ro rd a b * ?D) * (x b - x a)"
      unfolding T U unfolding D by (simp add: algebra_simps)
    also have "\<dots> = (x a + intersect_u ro rd a b * (x b - x a)) * ?D"
      by (simp add: algebra_simps)
    finally show ?thesis .
  qed
  with assms show "x ro + intersect_t ro rd a b * x rd = x a + intersect_u ro rd a b * (x b - x a)"
    by simp
  have "(y ro + intersect_t ro rd a b * y rd) * ?D = (y a + intersect_u ro rd a b * (y b - y a)) * ?D"
  proof -
    have "(y ro + intersect_t ro rd a b * y rd) * ?D = y ro * ?D + (intersect_t ro rd a b * ?D) * y rd"
      by (simp add: algebra_simps)
    also have "\<dots> = y a * ?D + (intersect_u ro rd a b * ?D) * (y b - y a)"
      unfolding T U unfolding D by (simp add: algebra_simps)
    also have "\<dots> = (y a + intersect_u ro rd a b * (y b - y a)) * ?D"
      by (simp add: algebra_simps)
    finally show ?thesis .
  qed
  with assms show "y ro + intersect_t ro rd a b * y rd = y a + intersect_u ro rd a b * (y b - y a)"
    by simp
qed

lemma intersect_on_segment:
  assumes "intersectRaySegment ro rd a b = Some h"
  shows "\<exists>u. 0 \<le> u \<and> u \<le> 1 \<and>
             x ro + t h * x rd = (1 - u) * x a + u * x b \<and>
             y ro + t h * y rd = (1 - u) * y a + u * y b"
proof -
  note b = intersect_Some_bounds [OF assms]
  from b(1) have nz: "intersect_denom ro rd a b \<noteq> 0" by auto
  have th: "t h = intersect_t ro rd a b" using assms by (rule intersect_Some_t)
  show ?thesis
    using b(3,4) intersect_solves [OF nz] unfolding th
    by (intro exI [of _ "intersect_u ro rd a b"]) (simp add: algebra_simps)
qed


lemma Point_eq_iff: "(p :: Point) = q \<longleftrightarrow> x p = x q \<and> y p = y q"
  by (cases p, cases q) simp

lemma edgeHit_in_triangle:
  assumes "i < 3" "edgeHit ray vertices i = Some h"
  shows "\<exists>a b c. 0 \<le> a \<and> 0 \<le> b \<and> 0 \<le> c \<and> a + b + c = 1 \<and>
           add (origin ray) (scale (direction ray) (t h)) = triangle_point vertices a b c"
proof -
  from assms(2) obtain u where u: "0 \<le> u" "u \<le> 1"
    and hx: "x (origin ray) + t h * x (direction ray) = (1 - u) * x (vertices ! i) + u * x (vertices ! ((i + 1) mod 3))"
    and hy: "y (origin ray) + t h * y (direction ray) = (1 - u) * y (vertices ! i) + u * y (vertices ! ((i + 1) mod 3))"
    unfolding edgeHit_def using intersect_on_segment by blast
  from assms(1) consider "i = 0" | "i = 1" | "i = 2" by linarith
  then show ?thesis
  proof cases
    case 1
    have "x (origin ray) + t h * x (direction ray) = (1 - u) * x (vertices ! 0) + u * x (vertices ! 1)"
      "y (origin ray) + t h * y (direction ray) = (1 - u) * y (vertices ! 0) + u * y (vertices ! 1)"
      using hx hy 1 by (simp_all add: numeral_2_eq_2)
    then have "add (origin ray) (scale (direction ray) (t h)) = triangle_point vertices (1 - u) u 0"
      by (simp add: Point_eq_iff add_def scale_def triangle_point_def mult.commute)
    with u show ?thesis
      by (intro exI [of _ "1 - u"] exI [of _ u] exI [of _ 0]) simp
  next
    case 2
    have "x (origin ray) + t h * x (direction ray) = (1 - u) * x (vertices ! 1) + u * x (vertices ! 2)"
      "y (origin ray) + t h * y (direction ray) = (1 - u) * y (vertices ! 1) + u * y (vertices ! 2)"
      using hx hy 2 by (simp_all add: numeral_2_eq_2)
    then have "add (origin ray) (scale (direction ray) (t h)) = triangle_point vertices 0 (1 - u) u"
      by (simp add: Point_eq_iff add_def scale_def triangle_point_def mult.commute)
    with u show ?thesis
      by (intro exI [of _ 0] exI [of _ "1 - u"] exI [of _ u]) simp
  next
    case 3
    have "x (origin ray) + t h * x (direction ray) = (1 - u) * x (vertices ! 2) + u * x (vertices ! 0)"
      "y (origin ray) + t h * y (direction ray) = (1 - u) * y (vertices ! 2) + u * y (vertices ! 0)"
      using hx hy 3 by (simp_all add: numeral_2_eq_2 numeral_3_eq_3)
    then have "add (origin ray) (scale (direction ray) (t h)) = triangle_point vertices u 0 (1 - u)"
      by (simp add: Point_eq_iff add_def scale_def triangle_point_def mult.commute)
    with u show ?thesis
      by (intro exI [of _ u] exI [of _ 0] exI [of _ "1 - u"]) simp
  qed
qed

lemma away_no_hit:
  assumes out: "outside_triangle vertices (origin ray)"
    and dir: "direction ray = scale (sub (origin ray) (triangle_point vertices a b c)) k"
    and w: "0 \<le> a" "0 \<le> b" "0 \<le> c" "a + b + c = 1"
    and k: "0 < k"
    and i: "i < 3"
  shows "edgeHit ray vertices i = None"
proof (rule ccontr)
  assume "edgeHit ray vertices i \<noteq> None"
  then obtain h where h: "edgeHit ray vertices i = Some h" by auto
  from edgeHit_in_triangle [OF i h] obtain a' b' c'
    where w': "0 \<le> a'" "0 \<le> b'" "0 \<le> c'" "a' + b' + c' = 1"
      and hp: "add (origin ray) (scale (direction ray) (t h)) = triangle_point vertices a' b' c'"
    by blast
  have "t h > 0.001" using h unfolding edgeHit_def by (rule intersect_Some_bounds(2))
  then have tpos: "0 < t h" by simp
  define s where "s = t h * k"
  have spos: "0 < s" unfolding s_def using tpos k by simp
  let ?o = "origin ray"
  let ?q = "triangle_point vertices a b c"
  have ex: "x ?o * (1 + s) = x (triangle_point vertices a' b' c') + s * x ?q"
    unfolding hp [symmetric] s_def by (simp add: dir add_def scale_def sub_def algebra_simps)
  have ey: "y ?o * (1 + s) = y (triangle_point vertices a' b' c') + s * y ?q"
    unfolding hp [symmetric] s_def by (simp add: dir add_def scale_def sub_def algebra_simps)
  let ?A = "(a' + s * a) / (1 + s)"
  let ?B = "(b' + s * b) / (1 + s)"
  let ?C = "(c' + s * c) / (1 + s)"
  have nz: "1 + s \<noteq> 0" using spos by simp
  have "x ?o = (x (triangle_point vertices a' b' c') + s * x ?q) / (1 + s)"
    using ex nz by (simp add: field_simps)
  then have X: "x ?o = x (triangle_point vertices ?A ?B ?C)"
    by (simp add: triangle_point_def add_divide_distrib algebra_simps)
  have "y ?o = (y (triangle_point vertices a' b' c') + s * y ?q) / (1 + s)"
    using ey nz by (simp add: field_simps)
  then have Y: "y ?o = y (triangle_point vertices ?A ?B ?C)"
    by (simp add: triangle_point_def add_divide_distrib algebra_simps)
  have eq: "?o = triangle_point vertices ?A ?B ?C"
    using X Y by (simp add: Point_eq_iff)
  have nonneg: "0 \<le> ?A" "0 \<le> ?B" "0 \<le> ?C"
    using w w' spos by simp_all
  have "?A + ?B + ?C = ((a' + b' + c') + s * (a + b + c)) / (1 + s)"
    by (simp add: add_divide_distrib algebra_simps)
  also have "\<dots> = 1" using w(4) w'(4) nz by simp
  finally have sum: "?A + ?B + ?C = 1" .
  from out nonneg sum eq show False
    unfolding outside_triangle_def by blast
qed

subsection \<open>The example scene, evaluated\<close>

lemma mag_m4_0: "mag \<lparr>x = - 4, y = 0\<rparr> = 4"
proof -
  have "sqrt 16 = sqrt (4 ^ 2)" by simp
  then show ?thesis unfolding mag_def by (simp del: real_sqrt_eq_iff)
qed

lemmas ex_eval = edgeHit_def intersectRaySegment_def add_def sub_def scale_def dot_def
  normalize_vec_def mag_m4_0 Let_def

lemma ex_straight_hits:
  "edgeHit ex_straight ex_vertices 0 = Some \<lparr>point = \<lparr>x = 1, y = 0\<rparr>, t = 1, normal = \<lparr>x = - 1, y = 0\<rparr>\<rparr>"
  "edgeHit ex_straight ex_vertices 1 = None"
  "edgeHit ex_straight ex_vertices 2 = None"
  by (simp_all add: ex_eval)

lemma ex_oblique_hits:
  "edgeHit ex_oblique ex_vertices 0 =
     Some \<lparr>point = \<lparr>x = 1, y = 4 / 3\<rparr>, t = 5 / 3, normal = \<lparr>x = - 1, y = 0\<rparr>\<rparr>"
  "edgeHit ex_oblique ex_vertices 1 = None"
  "edgeHit ex_oblique ex_vertices 2 = None"
  by (simp_all add: ex_eval)

lemma ex_straight_closest:
  "findClosestHit ex_straight ex_vertices =
     Some \<lparr>point = \<lparr>x = 1, y = 0\<rparr>, t = 1, normal = \<lparr>x = - 1, y = 0\<rparr>, boundaryIndex = 0\<rparr>"
  unfolding findClosestHit_unfold closestHitStep_def by (simp add: ex_straight_hits del: One_nat_def)

lemma ex_oblique_closest:
  "findClosestHit ex_oblique ex_vertices =
     Some \<lparr>point = \<lparr>x = 1, y = 4 / 3\<rparr>, t = 5 / 3, normal = \<lparr>x = - 1, y = 0\<rparr>, boundaryIndex = 0\<rparr>"
  unfolding findClosestHit_unfold closestHitStep_def by (simp add: ex_oblique_hits del: One_nat_def)

lemma ex_straight_cs2: "cs2 (3 / 2) ex_prism ex_straight ex_vertices
     \<lparr>point = \<lparr>x = 1, y = 0\<rparr>, t = 1, normal = \<lparr>x = - 1, y = 0\<rparr>, boundaryIndex = 0\<rparr> = 1"
  by (simp add: cs2_def c1_def eta_def n1_def n2_def orientedN_def entering_def geoNormal_def edgeDir_def ex_eval)

lemma ex_away_hits:
  "edgeHit ex_away ex_vertices 0 = None"
  "edgeHit ex_away ex_vertices 1 = None"
  "edgeHit ex_away ex_vertices 2 = None"
  by (simp_all add: ex_eval)

lemma ex_away_outside: "outside_triangle ex_vertices \<lparr>x = 2, y = 0\<rparr>"
  unfolding outside_triangle_def triangle_point_def
proof (intro allI impI notI)
  fix a b c :: real
  assume w: "0 \<le> a \<and> 0 \<le> b \<and> 0 \<le> c \<and> a + b + c = 1"
    and eq: "\<lparr>x = 2, y = 0\<rparr> =
      \<lparr>x = a * x (ex_vertices ! 0) + b * x (ex_vertices ! 1) + c * x (ex_vertices ! 2),
       y = a * y (ex_vertices ! 0) + b * y (ex_vertices ! 1) + c * y (ex_vertices ! 2)\<rparr>"
  from eq have "2 = a + b - 3 * c" by simp
  with w show False by linarith
qed

lemma ex_away_direction:
  "direction ex_away = scale (sub (origin ex_away) (triangle_point ex_vertices (3 / 8) (1 / 8) (1 / 2))) (1 / 3)"
  by (simp add: scale_def sub_def triangle_point_def)

text \<open>
  Claim C4. A call with depth at most 4, on a vertex array that has the three vertices,
  appends exactly one segment of its own. When some edge yields a valid intersection, the
  closest hit is the hit of one of the three edges, no edge has a hit with a smaller
  \<open>t\<close>, the segment runs from the origin of the ray to that hit, and the call continues
  as exactly one recursive call, at depth + 1 on the array extended by that segment (one
  nested activation more is what the call needs beyond those of its child). When no edge
  yields a valid intersection, the segment runs from the origin to the point 2000 times
  the direction further, and the call returns without a nested activation. In particular
  that is the outcome for a ray whose origin is outside the triangle and whose direction
  points from a point of the triangle to the origin, that is, directly away from the
  triangle.
\<close>

theorem traceRay_one_segment:
  "depth \<le> 4 \<and> 3 \<le> length vertices \<longrightarrow>
   ((\<exists>i<3. edgeHit ray vertices i \<noteq> None) \<longrightarrow>
      (\<exists>c. findClosestHit ray vertices = Some c \<and> boundaryIndex c < 3 \<and>
           edgeHit ray vertices (boundaryIndex c) = Some \<lparr>point = point c, t = t c, normal = normal c\<rparr> \<and>
           (\<forall>j<3. \<forall>h. edgeHit ray vertices j = Some h \<longrightarrow> t c \<le> t h) \<and>
           p1 (hitSegment ray depth c) = origin ray \<and>
           p2 (hitSegment ray depth c) = point c \<and>
           traceRay prismIOR prism ray depth vertices segments =
             traceRay prismIOR prism
               (childRay ray c (if cs2 prismIOR prism ray vertices c < 0
                                then reflectedDir prism ray vertices c
                                else refractDir prismIOR prism ray vertices c))
               (depth + 1) vertices (segments @ [hitSegment ray depth c]) \<and>
           (\<forall>n. traceRay_fuel (Suc n) prismIOR prism ray depth vertices segments =
             traceRay_fuel n prismIOR prism
               (childRay ray c (if cs2 prismIOR prism ray vertices c < 0
                                then reflectedDir prism ray vertices c
                                else refractDir prismIOR prism ray vertices c))
               (depth + 1) vertices (segments @ [hitSegment ray depth c])))) \<and>
   ((\<forall>i<3. edgeHit ray vertices i = None) \<longrightarrow>
      traceRay prismIOR prism ray depth vertices segments = (None, segments @ [escapeSegment ray depth]) \<and>
      traceRay_fuel 1 prismIOR prism ray depth vertices segments =
        Some (None, segments @ [escapeSegment ray depth]) \<and>
      p1 (escapeSegment ray depth) = origin ray \<and>
      p2 (escapeSegment ray depth) = add (origin ray) (scale (direction ray) 2000)) \<and>
   (outside_triangle vertices (origin ray) \<and>
    (\<exists>a b c k. 0 \<le> a \<and> 0 \<le> b \<and> 0 \<le> c \<and> a + b + c = 1 \<and> 0 < k \<and>
       direction ray = scale (sub (origin ray) (triangle_point vertices a b c)) k) \<longrightarrow>
      traceRay prismIOR prism ray depth vertices segments = (None, segments @ [escapeSegment ray depth]) \<and>
      traceRay_fuel 1 prismIOR prism ray depth vertices segments =
        Some (None, segments @ [escapeSegment ray depth]))"
proof (intro impI conjI; (elim conjE)?)
  assume d: "depth \<le> 4" and l: "3 \<le> length vertices"
  {
    assume "\<exists>i<3. edgeHit ray vertices i \<noteq> None"
    then have "findClosestHit ray vertices \<noteq> None" by (simp add: findClosestHit_None_iff)
    then obtain c where c: "findClosestHit ray vertices = Some c" by auto
    show "\<exists>c. findClosestHit ray vertices = Some c \<and> boundaryIndex c < 3 \<and>
           edgeHit ray vertices (boundaryIndex c) = Some \<lparr>point = point c, t = t c, normal = normal c\<rparr> \<and>
           (\<forall>j<3. \<forall>h. edgeHit ray vertices j = Some h \<longrightarrow> t c \<le> t h) \<and>
           p1 (hitSegment ray depth c) = origin ray \<and>
           p2 (hitSegment ray depth c) = point c \<and>
           traceRay prismIOR prism ray depth vertices segments =
             traceRay prismIOR prism
               (childRay ray c (if cs2 prismIOR prism ray vertices c < 0
                                then reflectedDir prism ray vertices c
                                else refractDir prismIOR prism ray vertices c))
               (depth + 1) vertices (segments @ [hitSegment ray depth c]) \<and>
           (\<forall>n. traceRay_fuel (Suc n) prismIOR prism ray depth vertices segments =
             traceRay_fuel n prismIOR prism
               (childRay ray c (if cs2 prismIOR prism ray vertices c < 0
                                then reflectedDir prism ray vertices c
                                else refractDir prismIOR prism ray vertices c))
               (depth + 1) vertices (segments @ [hitSegment ray depth c]))"
      using findClosestHit_Some [OF c] traceRay_hit [OF d l c, of prismIOR prism segments]
        traceRay_fuel_hit [OF d l c, of _ prismIOR prism segments] c
      by (intro exI [of _ c]) (simp add: hitSegment_def)
  }
  {
    assume "\<forall>i<3. edgeHit ray vertices i = None"
    then have none: "findClosestHit ray vertices = None" by (simp add: findClosestHit_None_iff)
    then show "traceRay prismIOR prism ray depth vertices segments = (None, segments @ [escapeSegment ray depth])"
      using d l by (simp add: traceRay_escape)
    show "traceRay_fuel 1 prismIOR prism ray depth vertices segments =
        Some (None, segments @ [escapeSegment ray depth])"
      using traceRay_fuel_escape [OF d l none, of 0] by simp
    show "p1 (escapeSegment ray depth) = origin ray"
      "p2 (escapeSegment ray depth) = add (origin ray) (scale (direction ray) 2000)"
      by (simp_all add: escapeSegment_def)
  }
  {
    assume out: "outside_triangle vertices (origin ray)"
      and "\<exists>a b c k. 0 \<le> a \<and> 0 \<le> b \<and> 0 \<le> c \<and> a + b + c = 1 \<and> 0 < k \<and>
       direction ray = scale (sub (origin ray) (triangle_point vertices a b c)) k"
    then obtain a b c k where "0 \<le> a" "0 \<le> b" "0 \<le> c" "a + b + c = 1" "0 < k"
      "direction ray = scale (sub (origin ray) (triangle_point vertices a b c)) k" by blast
    then have "\<forall>i<3. edgeHit ray vertices i = None"
      using away_no_hit [OF out] by blast
    then have none: "findClosestHit ray vertices = None" by (simp add: findClosestHit_None_iff)
    then show "traceRay prismIOR prism ray depth vertices segments = (None, segments @ [escapeSegment ray depth])"
      using d l by (simp add: traceRay_escape)
    show "traceRay_fuel 1 prismIOR prism ray depth vertices segments =
        Some (None, segments @ [escapeSegment ray depth])"
      using traceRay_fuel_escape [OF d l none, of 0] by simp
  }
qed


theorem traceRay_one_segment_witness:
  "(0::int) \<le> 4 \<and> 3 \<le> length ex_vertices \<and>
   (\<exists>i<3. edgeHit ex_straight ex_vertices i \<noteq> None) \<and>
   (\<exists>c. findClosestHit ex_straight ex_vertices = Some c \<and> boundaryIndex c = 0 \<and> t c = 1 \<and>
        p2 (hitSegment ex_straight 0 c) = \<lparr>x = 1, y = 0\<rparr> \<and>
        traceRay (3 / 2) ex_prism ex_straight 0 ex_vertices [] =
          traceRay (3 / 2) ex_prism
            (childRay ex_straight c (refractDir (3 / 2) ex_prism ex_straight ex_vertices c))
            (0 + 1) ex_vertices ([] @ [hitSegment ex_straight 0 c])) \<and>
   edgeHit ex_away ex_vertices 0 = None \<and>
   edgeHit ex_away ex_vertices 1 = None \<and>
   edgeHit ex_away ex_vertices 2 = None \<and>
   outside_triangle ex_vertices (origin ex_away) \<and>
   (\<exists>a b c k. 0 \<le> a \<and> 0 \<le> b \<and> 0 \<le> c \<and> a + b + c = 1 \<and> 0 < k \<and>
       direction ex_away = scale (sub (origin ex_away) (triangle_point ex_vertices a b c)) k) \<and>
   traceRay (3 / 2) ex_prism ex_away 0 ex_vertices [] = (None, [] @ [escapeSegment ex_away 0])"
proof -
  have hit: "\<exists>i<3. edgeHit ex_straight ex_vertices i \<noteq> None"
    using ex_straight_hits(1) by (intro exI [of _ 0]) simp
  have none: "\<forall>i<3. edgeHit ex_away ex_vertices i = None"
    using ex_away_hits by (simp add: less_3_cases del: One_nat_def)
  have out: "outside_triangle ex_vertices (origin ex_away)"
    using ex_away_outside by simp
  have away: "\<exists>a b c k. 0 \<le> a \<and> 0 \<le> b \<and> 0 \<le> c \<and> a + b + c = 1 \<and> 0 < k \<and>
       direction ex_away = scale (sub (origin ex_away) (triangle_point ex_vertices a b c)) k"
    using ex_away_direction
    by (intro exI [of _ "3 / 8"] exI [of _ "1 / 8"] exI [of _ "1 / 2"] exI [of _ "1 / 3"]) simp
  have len: "(0::int) \<le> 4 \<and> 3 \<le> length ex_vertices" by simp
  note A = traceRay_one_segment [where depth = 0 and vertices = ex_vertices and ray = ex_straight
      and prismIOR = "3 / 2" and prism = ex_prism and segments = "[]", THEN mp, OF len]
  note B = traceRay_one_segment [where depth = 0 and vertices = ex_vertices and ray = ex_away
      and prismIOR = "3 / 2" and prism = ex_prism and segments = "[]", THEN mp, OF len]
  from A have A1: "\<exists>c. findClosestHit ex_straight ex_vertices = Some c \<and> boundaryIndex c = 0 \<and> t c = 1 \<and>
        p2 (hitSegment ex_straight 0 c) = \<lparr>x = 1, y = 0\<rparr> \<and>
        traceRay (3 / 2) ex_prism ex_straight 0 ex_vertices [] =
          traceRay (3 / 2) ex_prism
            (childRay ex_straight c (refractDir (3 / 2) ex_prism ex_straight ex_vertices c))
            (0 + 1) ex_vertices ([] @ [hitSegment ex_straight 0 c])"
    using hit ex_straight_closest ex_straight_cs2 by (auto simp: hitSegment_def)
  from B have B1: "traceRay (3 / 2) ex_prism ex_away 0 ex_vertices [] = (None, [] @ [escapeSegment ex_away 0])"
    using none by blast
  from len hit A1 ex_away_hits out away B1 show ?thesis by blast
qed

text \<open>
  Claim C5. The tracer terminates on every ray, depth and vertex array: with
  \<open>5 - depth\<close> nested activations beyond the first (none beyond it when the depth is
  above 5) the bounded tracer returns, and what it returns is the result of \<open>traceRay\<close>;
  from a non-negative depth six activations are enough. A call with depth above 4 returns
  at once, with the array as it was, and a call that recurses does so at depth + 1.
\<close>

theorem traceRay_terminates:
  "traceRay_fuel (Suc (nat (5 - depth))) prismIOR prism ray depth vertices segments =
     Some (traceRay prismIOR prism ray depth vertices segments) \<and>
   (0 \<le> depth \<longrightarrow>
      traceRay_fuel 6 prismIOR prism ray depth vertices segments =
        Some (traceRay prismIOR prism ray depth vertices segments)) \<and>
   (4 < depth \<longrightarrow>
      traceRay_fuel 1 prismIOR prism ray depth vertices segments = Some (None, segments) \<and>
      traceRay prismIOR prism ray depth vertices segments = (None, segments)) \<and>
   (depth \<le> 4 \<and> 3 \<le> length vertices \<longrightarrow>
      (\<forall>c. findClosestHit ray vertices = Some c \<longrightarrow>
         traceRay_fuel (Suc n) prismIOR prism ray depth vertices segments =
           traceRay_fuel n prismIOR prism
             (childRay ray c (if cs2 prismIOR prism ray vertices c < 0
                              then reflectedDir prism ray vertices c
                              else refractDir prismIOR prism ray vertices c))
             (depth + 1) vertices (segments @ [hitSegment ray depth c])))"
proof (intro conjI impI allI)
  show "traceRay_fuel (Suc (nat (5 - depth))) prismIOR prism ray depth vertices segments =
     Some (traceRay prismIOR prism ray depth vertices segments)"
    by (rule traceRay_fuel_enough) simp
next
  assume "0 \<le> depth"
  then have "nat (5 - depth) < 6" by simp
  then show "traceRay_fuel 6 prismIOR prism ray depth vertices segments =
        Some (traceRay prismIOR prism ray depth vertices segments)"
    by (rule traceRay_fuel_enough)
next
  assume d: "4 < depth"
  have "traceRay_fuel (Suc 0) prismIOR prism ray depth vertices segments = Some (None, segments)"
    using d by (simp add: traceRay_fuel.simps)
  then show "traceRay_fuel 1 prismIOR prism ray depth vertices segments = Some (None, segments)"
    by simp
  show "traceRay prismIOR prism ray depth vertices segments = (None, segments)"
    using d by (rule traceRay_deep)
next
  fix c
  assume "depth \<le> 4 \<and> 3 \<le> length vertices" and "findClosestHit ray vertices = Some c"
  then show "traceRay_fuel (Suc n) prismIOR prism ray depth vertices segments =
           traceRay_fuel n prismIOR prism
             (childRay ray c (if cs2 prismIOR prism ray vertices c < 0
                              then reflectedDir prism ray vertices c
                              else refractDir prismIOR prism ray vertices c))
             (depth + 1) vertices (segments @ [hitSegment ray depth c])"
    by (simp add: traceRay_fuel.simps Let_def)
qed

theorem traceRay_terminates_witness:
  "(0::int) \<le> 0 \<and>
   traceRay_fuel 6 (3 / 2) ex_prism ex_straight 0 ex_vertices [] =
     Some (traceRay (3 / 2) ex_prism ex_straight 0 ex_vertices []) \<and>
   (4::int) < 5 \<and>
   traceRay_fuel 1 (3 / 2) ex_prism ex_straight 5 ex_vertices [] = Some (None, []) \<and>
   traceRay (3 / 2) ex_prism ex_straight 5 ex_vertices [] = (None, []) \<and>
   (0::int) \<le> 4 \<and> 3 \<le> length ex_vertices \<and>
   (\<exists>c. findClosestHit ex_straight ex_vertices = Some c \<and>
     traceRay_fuel (Suc 5) (3 / 2) ex_prism ex_straight 0 ex_vertices [] =
       traceRay_fuel 5 (3 / 2) ex_prism
         (childRay ex_straight c (refractDir (3 / 2) ex_prism ex_straight ex_vertices c))
         (0 + 1) ex_vertices ([] @ [hitSegment ex_straight 0 c]))"
proof -
  note A = traceRay_terminates [where depth = 0 and vertices = ex_vertices and ray = ex_straight
      and prismIOR = "3 / 2" and prism = ex_prism and segments = "[]" and n = 5]
  note B = traceRay_terminates [where depth = 5 and vertices = ex_vertices and ray = ex_straight
      and prismIOR = "3 / 2" and prism = ex_prism and segments = "[]" and n = 5]
  have len: "(0::int) \<le> 4 \<and> 3 \<le> length ex_vertices" by simp
  from A have A1: "traceRay_fuel 6 (3 / 2) ex_prism ex_straight 0 ex_vertices [] =
     Some (traceRay (3 / 2) ex_prism ex_straight 0 ex_vertices [])" by simp
  from A len have A2: "\<exists>c. findClosestHit ex_straight ex_vertices = Some c \<and>
     traceRay_fuel (Suc 5) (3 / 2) ex_prism ex_straight 0 ex_vertices [] =
       traceRay_fuel 5 (3 / 2) ex_prism
         (childRay ex_straight c (refractDir (3 / 2) ex_prism ex_straight ex_vertices c))
         (0 + 1) ex_vertices ([] @ [hitSegment ex_straight 0 c])"
    using ex_straight_closest ex_straight_cs2 by auto
  from B have B1: "traceRay_fuel 1 (3 / 2) ex_prism ex_straight 5 ex_vertices [] = Some (None, []) \<and>
     traceRay (3 / 2) ex_prism ex_straight 5 ex_vertices [] = (None, [])" by simp
  from A1 A2 B1 len show ?thesis by simp
qed

text \<open>
  Claim C10. The tracer only appends to the array: what a call leaves is the array it
  was given followed by the segments it added, so every entry that was there is still
  there at the same index; and it adds at most \<open>5 - depth\<close> segments, at most 5 from
  depth 0.
\<close>

theorem traceRay_frame:
  "(\<exists>ext. snd (traceRay prismIOR prism ray depth vertices segments) = segments @ ext \<and>
          int (length ext) \<le> max 0 (5 - depth)) \<and>
   take (length segments) (snd (traceRay prismIOR prism ray depth vertices segments)) = segments \<and>
   length (snd (traceRay prismIOR prism ray 0 vertices segments)) \<le> length segments + 5"
proof -
  from traceRay_appends [of prismIOR prism ray depth vertices segments]
  obtain ext where e: "snd (traceRay prismIOR prism ray depth vertices segments) = segments @ ext"
    "int (length ext) \<le> max 0 (5 - depth)" by blast
  from traceRay_appends [of prismIOR prism ray 0 vertices segments]
  obtain ext0 where e0: "snd (traceRay prismIOR prism ray 0 vertices segments) = segments @ ext0"
    "int (length ext0) \<le> max 0 (5 - 0)" by blast
  from e0 have "length (snd (traceRay prismIOR prism ray 0 vertices segments)) \<le> length segments + 5"
    by simp
  with e show ?thesis by auto
qed

subsection \<open>Normals and new directions at a hit\<close>

lemma dot_self: "dot v v = (mag v)\<^sup>2"
  by (simp add: dot_def mag_def power2_eq_square)

lemma mag_one_iff: "mag v = 1 \<longleftrightarrow> dot v v = 1"
  by (simp add: dot_def mag_def)

lemma normalize_vec_unit: "mag v = 1 \<Longrightarrow> normalize_vec v = v"
  by (simp add: normalize_vec_def Let_def)

lemma closest_edge_nondegenerate:
  assumes "findClosestHit ray vertices = Some c"
  shows "mag \<lparr>x = - y (edgeDir vertices c), y = x (edgeDir vertices c)\<rparr> \<noteq> 0"
proof -
  from findClosestHit_Some(2) [OF assms]
  have "intersectRaySegment (origin ray) (direction ray) (vertices ! boundaryIndex c)
          (vertices ! ((boundaryIndex c + 1) mod 3)) = Some \<lparr>point = point c, t = t c, normal = normal c\<rparr>"
    by (simp add: edgeHit_def)
  from intersect_Some_nondegenerate [OF this] show ?thesis
    by (simp add: edgeDir_def Let_def)
qed

lemma geoNormal_cases:
  "geoNormal prism vertices c = normalize_vec \<lparr>x = - y (edgeDir vertices c), y = x (edgeDir vertices c)\<rparr> \<or>
   geoNormal prism vertices c = scale (normalize_vec \<lparr>x = - y (edgeDir vertices c), y = x (edgeDir vertices c)\<rparr>) (- 1)"
  by (simp add: geoNormal_def Let_def)

lemma geoNormal_perp: "dot (geoNormal prism vertices c) (edgeDir vertices c) = 0"
  by (simp add: geoNormal_def Let_def dot_scale_neg_left dot_normalize_perp)

lemma geoNormal_away:
  "dot (geoNormal prism vertices c) (sub (center prism) (vertices ! boundaryIndex c)) \<le> 0"
  by (simp add: geoNormal_def Let_def dot_scale_neg_left)

lemma geoNormal_unit:
  assumes "findClosestHit ray vertices = Some c"
  shows "mag (geoNormal prism vertices c) = 1"
  using mag_normalize_vec [OF closest_edge_nondegenerate [OF assms]]
  by (simp add: geoNormal_def Let_def mag_scale_neg)

lemma orientedN_unit:
  assumes "findClosestHit ray vertices = Some c"
  shows "mag (orientedN prism ray vertices c) = 1"
  using geoNormal_unit [OF assms, of prism] by (simp add: orientedN_def mag_scale_neg)

lemma dot_sub_scale:
  "dot (sub u (scale v k)) (sub u (scale v k)) = dot u u - 2 * k * dot u v + k * k * dot v v"
  by (simp add: dot_def sub_def scale_def algebra_simps)

lemma dot_add_scale:
  "dot (add (scale u a) (scale v b)) (add (scale u a) (scale v b)) =
     a * a * dot u u + 2 * a * b * dot u v + b * b * dot v v"
  by (simp add: dot_def add_def scale_def algebra_simps)

lemma reflectedDir_unit:
  assumes "findClosestHit ray vertices = Some c" "mag (direction ray) = 1"
  shows "mag (reflectedDir prism ray vertices c) = 1"
proof -
  let ?L = "direction ray" and ?N = "orientedN prism ray vertices c"
  have L: "dot ?L ?L = 1" using assms(2) by (simp add: mag_one_iff)
  have N: "dot ?N ?N = 1" using orientedN_unit [OF assms(1)] by (simp add: mag_one_iff)
  show ?thesis
    unfolding mag_one_iff reflectedDir_def Let_def dot_sub_scale L N
    by (simp add: algebra_simps)
qed

lemma refractDir_unit:
  assumes "findClosestHit ray vertices = Some c" "mag (direction ray) = 1"
    and "0 \<le> cs2 prismIOR prism ray vertices c"
  shows "mag (refractDir prismIOR prism ray vertices c) = 1"
proof -
  let ?L = "direction ray" and ?N = "orientedN prism ray vertices c"
  let ?e = "eta prismIOR prism ray vertices c" and ?c = "c1 prism ray vertices c"
  let ?s = "sqrt (cs2 prismIOR prism ray vertices c)"
  have L: "dot ?L ?L = 1" using assms(2) by (simp add: mag_one_iff)
  have N: "dot ?N ?N = 1" using orientedN_unit [OF assms(1)] by (simp add: mag_one_iff)
  have LN: "dot ?L ?N = - ?c" by (simp add: c1_def)
  have ss: "?s * ?s = 1 - ?e * ?e * (1 - ?c * ?c)"
    using assms(3) by (simp add: cs2_def Let_def)
  have "?e * ?e * 1 + 2 * ?e * (?e * ?c - ?s) * (- ?c) + (?e * ?c - ?s) * (?e * ?c - ?s) * 1
        = ?e * ?e * (1 - ?c * ?c) + ?s * ?s"
    by (simp add: algebra_simps)
  also have "\<dots> = 1" unfolding ss by simp
  finally show ?thesis
    unfolding mag_one_iff refractDir_def Let_def dot_add_scale L N LN .
qed


lemma mag_3_m4: "mag \<lparr>x = 3, y = - 4\<rparr> = 5"
proof -
  have "sqrt 25 = sqrt (5 ^ 2)" by simp
  then show ?thesis unfolding mag_def by (simp del: real_sqrt_eq_iff)
qed

lemma ex_entering_hits:
  "edgeHit ex_entering ex_vertices 0 = Some \<lparr>point = \<lparr>x = 1, y = 1\<rparr>, t = 1, normal = \<lparr>x = 1, y = 0\<rparr>\<rparr>"
  "edgeHit ex_entering ex_vertices 1 =
     Some \<lparr>point = \<lparr>x = - 5 / 3, y = 1\<rparr>, t = 11 / 3, normal = \<lparr>x = 3 / 5, y = - 4 / 5\<rparr>\<rparr>"
  "edgeHit ex_entering ex_vertices 2 = None"
  by (simp_all add: ex_eval mag_3_m4)

lemma ex_entering_closest:
  "findClosestHit ex_entering ex_vertices = Some (ex_hit \<lparr>x = 1, y = 1\<rparr> 1 \<lparr>x = 1, y = 0\<rparr>)"
  unfolding findClosestHit_unfold closestHitStep_def by (simp add: ex_entering_hits del: One_nat_def)

lemma ex_geoNormal: "geoNormal ex_prism ex_vertices (ex_hit q tv nv) = \<lparr>x = 1, y = 0\<rparr>"
  by (simp add: geoNormal_def edgeDir_def ex_eval)

lemmas ex_eval_hit = cs2_def c1_def eta_def n1_def n2_def orientedN_def entering_def ex_geoNormal
  reflectedDir_def refractDir_def dot_def scale_def add_def sub_def Let_def

lemma ex_straight_values:
  "\<not> entering ex_prism ex_straight ex_vertices (ex_hit q tv nv)"
  "orientedN ex_prism ex_straight ex_vertices (ex_hit q tv nv) = \<lparr>x = - 1, y = 0\<rparr>"
  "eta (3 / 2) ex_prism ex_straight ex_vertices (ex_hit q tv nv) = 3 / 2"
  "c1 ex_prism ex_straight ex_vertices (ex_hit q tv nv) = 1"
  "cs2 (3 / 2) ex_prism ex_straight ex_vertices (ex_hit q tv nv) = 1"
  "refractDir (3 / 2) ex_prism ex_straight ex_vertices (ex_hit q tv nv) = \<lparr>x = 1, y = 0\<rparr>"
  by (simp_all add: ex_eval_hit)

lemma ex_oblique_values:
  "\<not> entering ex_prism ex_oblique ex_vertices (ex_hit q tv nv)"
  "orientedN ex_prism ex_oblique ex_vertices (ex_hit q tv nv) = \<lparr>x = - 1, y = 0\<rparr>"
  "eta (3 / 2) ex_prism ex_oblique ex_vertices (ex_hit q tv nv) = 3 / 2"
  "c1 ex_prism ex_oblique ex_vertices (ex_hit q tv nv) = 3 / 5"
  "cs2 (3 / 2) ex_prism ex_oblique ex_vertices (ex_hit q tv nv) = - 11 / 25"
  "reflectedDir ex_prism ex_oblique ex_vertices (ex_hit q tv nv) = \<lparr>x = - 3 / 5, y = 4 / 5\<rparr>"
  by (simp_all add: ex_eval_hit)

lemma ex_entering_values:
  "entering ex_prism ex_entering ex_vertices (ex_hit q tv nv)"
  "orientedN ex_prism ex_entering ex_vertices (ex_hit q tv nv) = \<lparr>x = 1, y = 0\<rparr>"
  "n1 (3 / 2) ex_prism ex_entering ex_vertices (ex_hit q tv nv) = 1"
  "n2 (3 / 2) ex_prism ex_entering ex_vertices (ex_hit q tv nv) = 3 / 2"
  "eta (3 / 2) ex_prism ex_entering ex_vertices (ex_hit q tv nv) = 2 / 3"
  "c1 ex_prism ex_entering ex_vertices (ex_hit q tv nv) = 1"
  "cs2 (3 / 2) ex_prism ex_entering ex_vertices (ex_hit q tv nv) = 1"
  "refractDir (3 / 2) ex_prism ex_entering ex_vertices (ex_hit q tv nv) = \<lparr>x = - 1, y = 0\<rparr>"
  by (simp_all add: ex_eval_hit)

text \<open>
  Claim C2. At a hit handled by the tracer, the geometric normal of the hit edge has
  magnitude 1, is perpendicular to the edge direction (it is the normalised perpendicular
  or its negation), and its dot product with the vector from the first endpoint of the
  edge to the prism center is not positive. The ray is entering exactly when the dot
  product of its direction with that normal is negative. Entering gives n1 = 1 and
  n2 = prismIOR + wavelength offset, and the oriented normal is the geometric one; exiting
  gives the two indices swapped and the negated normal.
\<close>

theorem hit_normal_and_indices:
  "3 \<le> length vertices \<and> findClosestHit ray vertices = Some c \<longrightarrow>
     mag (geoNormal prism vertices c) = 1 \<and>
     (geoNormal prism vertices c = normalize_vec \<lparr>x = - y (edgeDir vertices c), y = x (edgeDir vertices c)\<rparr> \<or>
      geoNormal prism vertices c =
        scale (normalize_vec \<lparr>x = - y (edgeDir vertices c), y = x (edgeDir vertices c)\<rparr>) (- 1)) \<and>
     edgeDir vertices c = sub (vertices ! ((boundaryIndex c + 1) mod 3)) (vertices ! boundaryIndex c) \<and>
     dot (geoNormal prism vertices c) (edgeDir vertices c) = 0 \<and>
     dot (geoNormal prism vertices c) (sub (center prism) (vertices ! boundaryIndex c)) \<le> 0 \<and>
     (entering prism ray vertices c \<longleftrightarrow> dot (direction ray) (geoNormal prism vertices c) < 0) \<and>
     (entering prism ray vertices c \<longrightarrow>
        n1 prismIOR prism ray vertices c = 1 \<and>
        n2 prismIOR prism ray vertices c = prismIOR + wavelength ray \<and>
        orientedN prism ray vertices c = geoNormal prism vertices c) \<and>
     (\<not> entering prism ray vertices c \<longrightarrow>
        n1 prismIOR prism ray vertices c = prismIOR + wavelength ray \<and>
        n2 prismIOR prism ray vertices c = 1 \<and>
        orientedN prism ray vertices c = scale (geoNormal prism vertices c) (- 1))"
proof (intro impI, elim conjE)
  assume c: "findClosestHit ray vertices = Some c"
  have "mag (geoNormal prism vertices c) = 1" using c by (rule geoNormal_unit)
  moreover note geoNormal_cases [of prism vertices c]
  moreover have "edgeDir vertices c = sub (vertices ! ((boundaryIndex c + 1) mod 3)) (vertices ! boundaryIndex c)"
    by (simp add: edgeDir_def Let_def)
  moreover note geoNormal_perp [of prism vertices c] geoNormal_away [of prism vertices c]
  moreover have "entering prism ray vertices c \<longleftrightarrow> dot (direction ray) (geoNormal prism vertices c) < 0"
    by (simp add: entering_def)
  moreover have "entering prism ray vertices c \<longrightarrow>
        n1 prismIOR prism ray vertices c = 1 \<and>
        n2 prismIOR prism ray vertices c = prismIOR + wavelength ray \<and>
        orientedN prism ray vertices c = geoNormal prism vertices c"
    by (simp add: n1_def n2_def orientedN_def)
  moreover have "\<not> entering prism ray vertices c \<longrightarrow>
        n1 prismIOR prism ray vertices c = prismIOR + wavelength ray \<and>
        n2 prismIOR prism ray vertices c = 1 \<and>
        orientedN prism ray vertices c = scale (geoNormal prism vertices c) (- 1)"
    by (simp add: n1_def n2_def orientedN_def)
  ultimately show "mag (geoNormal prism vertices c) = 1 \<and>
     (geoNormal prism vertices c = normalize_vec \<lparr>x = - y (edgeDir vertices c), y = x (edgeDir vertices c)\<rparr> \<or>
      geoNormal prism vertices c =
        scale (normalize_vec \<lparr>x = - y (edgeDir vertices c), y = x (edgeDir vertices c)\<rparr>) (- 1)) \<and>
     edgeDir vertices c = sub (vertices ! ((boundaryIndex c + 1) mod 3)) (vertices ! boundaryIndex c) \<and>
     dot (geoNormal prism vertices c) (edgeDir vertices c) = 0 \<and>
     dot (geoNormal prism vertices c) (sub (center prism) (vertices ! boundaryIndex c)) \<le> 0 \<and>
     (entering prism ray vertices c \<longleftrightarrow> dot (direction ray) (geoNormal prism vertices c) < 0) \<and>
     (entering prism ray vertices c \<longrightarrow>
        n1 prismIOR prism ray vertices c = 1 \<and>
        n2 prismIOR prism ray vertices c = prismIOR + wavelength ray \<and>
        orientedN prism ray vertices c = geoNormal prism vertices c) \<and>
     (\<not> entering prism ray vertices c \<longrightarrow>
        n1 prismIOR prism ray vertices c = prismIOR + wavelength ray \<and>
        n2 prismIOR prism ray vertices c = 1 \<and>
        orientedN prism ray vertices c = scale (geoNormal prism vertices c) (- 1))"
    by blast
qed

theorem hit_normal_and_indices_witness:
  "3 \<le> length ex_vertices \<and>
   findClosestHit ex_entering ex_vertices = Some (ex_hit \<lparr>x = 1, y = 1\<rparr> 1 \<lparr>x = 1, y = 0\<rparr>) \<and>
   geoNormal ex_prism ex_vertices (ex_hit \<lparr>x = 1, y = 1\<rparr> 1 \<lparr>x = 1, y = 0\<rparr>) = \<lparr>x = 1, y = 0\<rparr> \<and>
   entering ex_prism ex_entering ex_vertices (ex_hit \<lparr>x = 1, y = 1\<rparr> 1 \<lparr>x = 1, y = 0\<rparr>) \<and>
   n1 (3 / 2) ex_prism ex_entering ex_vertices (ex_hit \<lparr>x = 1, y = 1\<rparr> 1 \<lparr>x = 1, y = 0\<rparr>) = 1 \<and>
   n2 (3 / 2) ex_prism ex_entering ex_vertices (ex_hit \<lparr>x = 1, y = 1\<rparr> 1 \<lparr>x = 1, y = 0\<rparr>) = 3 / 2 + 0 \<and>
   orientedN ex_prism ex_entering ex_vertices (ex_hit \<lparr>x = 1, y = 1\<rparr> 1 \<lparr>x = 1, y = 0\<rparr>) = \<lparr>x = 1, y = 0\<rparr> \<and>
   findClosestHit ex_straight ex_vertices = Some (ex_hit \<lparr>x = 1, y = 0\<rparr> 1 \<lparr>x = - 1, y = 0\<rparr>) \<and>
   \<not> entering ex_prism ex_straight ex_vertices (ex_hit \<lparr>x = 1, y = 0\<rparr> 1 \<lparr>x = - 1, y = 0\<rparr>) \<and>
   n1 (3 / 2) ex_prism ex_straight ex_vertices (ex_hit \<lparr>x = 1, y = 0\<rparr> 1 \<lparr>x = - 1, y = 0\<rparr>) = 3 / 2 + 0 \<and>
   n2 (3 / 2) ex_prism ex_straight ex_vertices (ex_hit \<lparr>x = 1, y = 0\<rparr> 1 \<lparr>x = - 1, y = 0\<rparr>) = 1 \<and>
   orientedN ex_prism ex_straight ex_vertices (ex_hit \<lparr>x = 1, y = 0\<rparr> 1 \<lparr>x = - 1, y = 0\<rparr>) =
     scale \<lparr>x = 1, y = 0\<rparr> (- 1)"
proof -
  have len: "3 \<le> length ex_vertices" by simp
  note A = hit_normal_and_indices [where vertices = ex_vertices and ray = ex_entering and prism = ex_prism
      and prismIOR = "3 / 2" and c = "ex_hit \<lparr>x = 1, y = 1\<rparr> 1 \<lparr>x = 1, y = 0\<rparr>",
      THEN mp, OF conjI [OF len ex_entering_closest]]
  note B = hit_normal_and_indices [where vertices = ex_vertices and ray = ex_straight and prism = ex_prism
      and prismIOR = "3 / 2" and c = "ex_hit \<lparr>x = 1, y = 0\<rparr> 1 \<lparr>x = - 1, y = 0\<rparr>",
      THEN mp, OF conjI [OF len ex_straight_closest]]
  have e: "entering ex_prism ex_entering ex_vertices (ex_hit \<lparr>x = 1, y = 1\<rparr> 1 \<lparr>x = 1, y = 0\<rparr>)"
    by (rule ex_entering_values(1))
  have s: "\<not> entering ex_prism ex_straight ex_vertices (ex_hit \<lparr>x = 1, y = 0\<rparr> 1 \<lparr>x = - 1, y = 0\<rparr>)"
    by (rule ex_straight_values(1))
  from A e B s len ex_entering_closest ex_straight_closest show ?thesis
    by (simp add: ex_geoNormal)
qed

lemma normal_incidence_opposite:
  assumes "mag u = 1" "mag v = 1" "dot u v = - 1"
  shows "x v = - x u" "y v = - y u"
proof -
  have "dot u u = 1" "dot v v = 1" using assms by (simp_all add: mag_one_iff)
  then have "(x u + x v) * (x u + x v) + (y u + y v) * (y u + y v) = 0"
    using assms(3) by (simp add: dot_def algebra_simps)
  then have "x u + x v = 0 \<and> y u + y v = 0"
    by (simp add: sum_squares_eq_zero_iff)
  then show "x v = - x u" "y v = - y u" by simp_all
qed

lemma normal_incidence_refractDir:
  assumes c: "findClosestHit ray vertices = Some c"
    and L: "mag (direction ray) = 1"
    and c1: "c1 prism ray vertices c = 1"
  shows "cs2 prismIOR prism ray vertices c = 1"
    and "refractDir prismIOR prism ray vertices c = direction ray"
proof -
  show cs: "cs2 prismIOR prism ray vertices c = 1"
    by (simp add: cs2_def Let_def c1)
  have "dot (direction ray) (orientedN prism ray vertices c) = - 1"
    using c1 by (simp add: c1_def)
  from normal_incidence_opposite [OF L orientedN_unit [OF c] this]
  have N: "x (orientedN prism ray vertices c) = - x (direction ray)"
    "y (orientedN prism ray vertices c) = - y (direction ray)" .
  show "refractDir prismIOR prism ray vertices c = direction ray"
    by (simp add: refractDir_def Let_def cs c1 Point_eq_iff add_def scale_def N algebra_simps)
qed

text \<open>
  Claim C7. At a hit with a unit incident direction and \<open>c1 = 1\<close> (normal incidence),
  for every \<open>\<eta> > 0\<close>: \<open>cs2\<close> is 1, so the tracer takes the refraction branch, and the
  transmitted direction, before and after normalisation, is the incident direction; the
  child ray of the recursive call has the direction of its parent.
\<close>

theorem normal_incidence_no_bending:
  "3 \<le> length vertices \<and> findClosestHit ray vertices = Some c \<and> mag (direction ray) = 1 \<and>
   c1 prism ray vertices c = 1 \<and> 0 < eta prismIOR prism ray vertices c \<longrightarrow>
     cs2 prismIOR prism ray vertices c = 1 \<and>
     \<not> cs2 prismIOR prism ray vertices c < 0 \<and>
     refractDir prismIOR prism ray vertices c = direction ray \<and>
     normalize_vec (refractDir prismIOR prism ray vertices c) = direction ray \<and>
     (depth \<le> 4 \<longrightarrow>
        traceRay prismIOR prism ray depth vertices segments =
          traceRay prismIOR prism (childRay ray c (refractDir prismIOR prism ray vertices c))
            (depth + 1) vertices (segments @ [hitSegment ray depth c]) \<and>
        direction (childRay ray c (refractDir prismIOR prism ray vertices c)) = direction ray)"
proof (intro impI, elim conjE)
  assume l: "3 \<le> length vertices" and c: "findClosestHit ray vertices = Some c"
    and L: "mag (direction ray) = 1" and c1: "c1 prism ray vertices c = 1"
  note ni = normal_incidence_refractDir [OF c L c1, of prismIOR]
  have n: "normalize_vec (refractDir prismIOR prism ray vertices c) = direction ray"
    using L by (simp add: ni normalize_vec_unit)
  have "depth \<le> 4 \<longrightarrow>
        traceRay prismIOR prism ray depth vertices segments =
          traceRay prismIOR prism (childRay ray c (refractDir prismIOR prism ray vertices c))
            (depth + 1) vertices (segments @ [hitSegment ray depth c]) \<and>
        direction (childRay ray c (refractDir prismIOR prism ray vertices c)) = direction ray"
  proof
    assume d: "depth \<le> 4"
    show "traceRay prismIOR prism ray depth vertices segments =
          traceRay prismIOR prism (childRay ray c (refractDir prismIOR prism ray vertices c))
            (depth + 1) vertices (segments @ [hitSegment ray depth c]) \<and>
        direction (childRay ray c (refractDir prismIOR prism ray vertices c)) = direction ray"
      using traceRay_hit [OF d l c, of prismIOR prism segments] n
      by (simp add: ni(1) childRay_def)
  qed
  with ni n show "cs2 prismIOR prism ray vertices c = 1 \<and>
     \<not> cs2 prismIOR prism ray vertices c < 0 \<and>
     refractDir prismIOR prism ray vertices c = direction ray \<and>
     normalize_vec (refractDir prismIOR prism ray vertices c) = direction ray \<and>
     (depth \<le> 4 \<longrightarrow>
        traceRay prismIOR prism ray depth vertices segments =
          traceRay prismIOR prism (childRay ray c (refractDir prismIOR prism ray vertices c))
            (depth + 1) vertices (segments @ [hitSegment ray depth c]) \<and>
        direction (childRay ray c (refractDir prismIOR prism ray vertices c)) = direction ray)"
    by simp
qed

lemma mag_1_0: "mag \<lparr>x = 1, y = 0\<rparr> = 1" "mag \<lparr>x = - 1, y = 0\<rparr> = 1"
  by (simp_all add: mag_def)

theorem normal_incidence_no_bending_witness:
  "3 \<le> length ex_vertices \<and>
   findClosestHit ex_straight ex_vertices = Some (ex_hit \<lparr>x = 1, y = 0\<rparr> 1 \<lparr>x = - 1, y = 0\<rparr>) \<and>
   mag (direction ex_straight) = 1 \<and>
   c1 ex_prism ex_straight ex_vertices (ex_hit \<lparr>x = 1, y = 0\<rparr> 1 \<lparr>x = - 1, y = 0\<rparr>) = 1 \<and>
   0 < eta (3 / 2) ex_prism ex_straight ex_vertices (ex_hit \<lparr>x = 1, y = 0\<rparr> 1 \<lparr>x = - 1, y = 0\<rparr>) \<and>
   (0::int) \<le> 4 \<and>
   cs2 (3 / 2) ex_prism ex_straight ex_vertices (ex_hit \<lparr>x = 1, y = 0\<rparr> 1 \<lparr>x = - 1, y = 0\<rparr>) = 1 \<and>
   normalize_vec (refractDir (3 / 2) ex_prism ex_straight ex_vertices
      (ex_hit \<lparr>x = 1, y = 0\<rparr> 1 \<lparr>x = - 1, y = 0\<rparr>)) = \<lparr>x = 1, y = 0\<rparr> \<and>
   traceRay (3 / 2) ex_prism ex_straight 0 ex_vertices [] =
     traceRay (3 / 2) ex_prism
       (childRay ex_straight (ex_hit \<lparr>x = 1, y = 0\<rparr> 1 \<lparr>x = - 1, y = 0\<rparr>)
          (refractDir (3 / 2) ex_prism ex_straight ex_vertices (ex_hit \<lparr>x = 1, y = 0\<rparr> 1 \<lparr>x = - 1, y = 0\<rparr>)))
       (0 + 1) ex_vertices ([] @ [hitSegment ex_straight 0 (ex_hit \<lparr>x = 1, y = 0\<rparr> 1 \<lparr>x = - 1, y = 0\<rparr>)])"
proof -
  have hyp: "3 \<le> length ex_vertices \<and>
     findClosestHit ex_straight ex_vertices = Some (ex_hit \<lparr>x = 1, y = 0\<rparr> 1 \<lparr>x = - 1, y = 0\<rparr>) \<and>
     mag (direction ex_straight) = 1 \<and>
     c1 ex_prism ex_straight ex_vertices (ex_hit \<lparr>x = 1, y = 0\<rparr> 1 \<lparr>x = - 1, y = 0\<rparr>) = 1 \<and>
     0 < eta (3 / 2) ex_prism ex_straight ex_vertices (ex_hit \<lparr>x = 1, y = 0\<rparr> 1 \<lparr>x = - 1, y = 0\<rparr>)"
    using ex_straight_closest by (simp add: ex_straight_values mag_1_0)
  note A = normal_incidence_no_bending [where vertices = ex_vertices and ray = ex_straight
      and prism = ex_prism and prismIOR = "3 / 2" and depth = 0 and segments = "[]"
      and c = "ex_hit \<lparr>x = 1, y = 0\<rparr> 1 \<lparr>x = - 1, y = 0\<rparr>", THEN mp, OF hyp]
  from A hyp show ?thesis by (simp add: normalize_vec_unit mag_1_0)
qed

subsection \<open>The log of activations\<close>

lemma traceRay_calls_first:
  "traceRay_calls prismIOR prism ray depth vertices segments ! 0 = (ray, depth, segments)"
  by (subst traceRay_calls.simps) simp

lemma traceRay_calls_hit:
  "depth \<le> 4 \<Longrightarrow> 3 \<le> length vertices \<Longrightarrow> findClosestHit ray vertices = Some c \<Longrightarrow>
     traceRay_calls prismIOR prism ray depth vertices segments =
       (ray, depth, segments) #
       traceRay_calls prismIOR prism
         (childRay ray c (if cs2 prismIOR prism ray vertices c < 0
                          then reflectedDir prism ray vertices c
                          else refractDir prismIOR prism ray vertices c))
         (depth + 1) vertices (segments @ [hitSegment ray depth c])"
  by (subst traceRay_calls.simps) (simp add: Let_def)

lemma traceRay_calls_leaf:
  "4 < depth \<or> length vertices < 3 \<or> findClosestHit ray vertices = None \<Longrightarrow>
     traceRay_calls prismIOR prism ray depth vertices segments = [(ray, depth, segments)]"
  by (subst traceRay_calls.simps) auto

lemma traceRay_calls_nonempty:
  "traceRay_calls prismIOR prism ray depth vertices segments \<noteq> []"
  by (subst traceRay_calls.simps) simp

lemma traceRay_calls_second:
  assumes "depth \<le> 4" "3 \<le> length vertices" "findClosestHit ray vertices = Some c"
  shows "traceRay_calls prismIOR prism ray depth vertices segments ! 1 =
           (childRay ray c (if cs2 prismIOR prism ray vertices c < 0
                            then reflectedDir prism ray vertices c
                            else refractDir prismIOR prism ray vertices c),
            depth + 1, segments @ [hitSegment ray depth c])"
    and "1 < length (traceRay_calls prismIOR prism ray depth vertices segments)"
  unfolding traceRay_calls_hit [OF assms]
  using traceRay_calls_nonempty by (simp_all add: traceRay_calls_first)

lemma traceRay_pushed:
  "snd (traceRay prismIOR prism ray depth vertices segments) =
     segments @ concat (map (pushed vertices) (traceRay_calls prismIOR prism ray depth vertices segments))"
proof (induction prismIOR prism ray depth vertices segments rule: traceRay.induct)
  case (1 prismIOR prism ray depth vertices segments)
  show ?case
  proof (cases "4 < depth \<or> length vertices < 3 \<or> findClosestHit ray vertices = None")
    case True
    then show ?thesis
      by (auto simp: traceRay_calls_leaf traceRay.simps pushed_def)
  next
    case False
    then obtain c where c: "findClosestHit ray vertices = Some c" and d: "depth \<le> 4"
      and l: "3 \<le> length vertices" by auto
    let ?segs = "segments @ [hitSegment ray depth c]"
    let ?child = "childRay ray c (if cs2 prismIOR prism ray vertices c < 0
                          then reflectedDir prism ray vertices c
                          else refractDir prismIOR prism ray vertices c)"
    have d': "\<not> 4 < depth" and l': "\<not> length vertices < 3" using d l by simp_all
    have IH: "snd (traceRay prismIOR prism ?child (depth + 1) vertices ?segs) =
        ?segs @ concat (map (pushed vertices) (traceRay_calls prismIOR prism ?child (depth + 1) vertices ?segs))"
    proof (cases "cs2 prismIOR prism ray vertices c < 0")
      case True
      with "1.IH"(1) [OF d' l' c refl True] show ?thesis by simp
    next
      case False
      with "1.IH"(2) [OF d' l' c refl False] show ?thesis by simp
    qed
    have own: "pushed vertices (ray, depth, segments) = [hitSegment ray depth c]"
      using c d l by (simp add: pushed_def)
    show ?thesis
      unfolding traceRay_hit [OF d l c] traceRay_calls_hit [OF d l c] IH
      by (simp add: own)
  qed
qed

subsection \<open>Mirror reflection and Snell's law\<close>

lemma dot_reflect:
  assumes "dot n n = 1"
  shows "dot (sub l (scale n (2 * dot l n))) n = - dot l n"
proof -
  have "dot (sub l (scale n k)) n = dot l n - k * dot n n" for k
    by (simp add: dot_def sub_def scale_def algebra_simps)
  then show ?thesis by (simp add: assms)
qed

lemma cross_reflect: "cross (sub l (scale n k)) n = cross l n"
  by (simp add: cross_def sub_def scale_def algebra_simps)

lemma cross_refract: "cross (add (scale l e) (scale n k)) n = e * cross l n"
  by (simp add: cross_def add_def scale_def algebra_simps)

lemma dot_refract:
  assumes "dot n n = 1"
  shows "dot (add (scale l e) (scale n k)) n = e * dot l n + k"
proof -
  have "dot (add (scale l e) (scale n k)) n = e * dot l n + k * dot n n"
    by (simp add: dot_def add_def scale_def algebra_simps)
  then show ?thesis by (simp add: assms)
qed

text \<open>
  Claim C1. A call in the hit case, at depth at most 4, starts exactly one further
  activation, the second entry of its log, and what it returns holds the segments pushed by
  the logged activations. With \<open>L\<close> the direction of the ray, \<open>N\<close> the oriented normal,
  \<open>e = n1 / n2\<close>, \<open>cc = - dot L N\<close> and \<open>cs = 1 - e\<^sup>2 * (1 - cc\<^sup>2)\<close>: when \<open>cs < 0\<close> the new
  direction is the mirror reflection \<open>R = L - N * (2 * dot L N)\<close>, otherwise it is the
  refraction \<open>T = L * e + N * (e * cc - sqrt cs)\<close>. The second activation is at depth + 1,
  on the array with the hit segment appended, and its ray has the new direction normalised
  as direction, the hit point plus 0.01 times the new direction as origin, and the color,
  wavelength offset and intensity of the parent. \<open>R\<close> is the mirror image of \<open>L\<close>: its
  component along \<open>N\<close> is negated and the one across is kept. \<open>T\<close> obeys Snell's law: its
  component across \<open>N\<close> is \<open>e\<close> times that of \<open>L\<close>, and the one along \<open>N\<close> is \<open>- sqrt cs\<close>.
  For a parent of unit direction the new direction has magnitude 1 and is its own
  normalisation, so the origin of the child lies 0.01 along the direction of the child.
\<close>

theorem hit_child_ray:
  "depth \<le> 4 \<and> 3 \<le> length vertices \<and> findClosestHit ray vertices = Some c \<and>
   n2 prismIOR prism ray vertices c \<noteq> 0 \<and>
   L = direction ray \<and> N = orientedN prism ray vertices c \<and>
   e = n1 prismIOR prism ray vertices c / n2 prismIOR prism ray vertices c \<and>
   cc = - dot L N \<and> cs = 1 - e\<^sup>2 * (1 - cc\<^sup>2) \<and>
   R = sub L (scale N (2 * dot L N)) \<and>
   T = add (scale L e) (scale N (e * cc - sqrt cs)) \<longrightarrow>
     traceRay_calls prismIOR prism ray depth vertices segments ! 0 = (ray, depth, segments) \<and>
     1 < length (traceRay_calls prismIOR prism ray depth vertices segments) \<and>
     snd (traceRay prismIOR prism ray depth vertices segments) =
       segments @ concat (map (pushed vertices)
                            (traceRay_calls prismIOR prism ray depth vertices segments)) \<and>
     (cs < 0 \<longrightarrow>
        traceRay_calls prismIOR prism ray depth vertices segments ! 1 =
          (\<lparr>origin = add (point c) (scale R 0.01), direction = normalize_vec R,
            Ray.color = Ray.color ray, wavelength = wavelength ray,
            Ray.intensity = Ray.intensity ray\<rparr>,
           depth + 1, segments @ [hitSegment ray depth c]) \<and>
        traceRay prismIOR prism ray depth vertices segments =
          traceRay prismIOR prism
            \<lparr>origin = add (point c) (scale R 0.01), direction = normalize_vec R,
             Ray.color = Ray.color ray, wavelength = wavelength ray,
             Ray.intensity = Ray.intensity ray\<rparr>
            (depth + 1) vertices (segments @ [hitSegment ray depth c]) \<and>
        dot R N = - dot L N \<and> cross R N = cross L N \<and>
        (mag L = 1 \<longrightarrow> mag R = 1 \<and> normalize_vec R = R)) \<and>
     (0 \<le> cs \<longrightarrow>
        traceRay_calls prismIOR prism ray depth vertices segments ! 1 =
          (\<lparr>origin = add (point c) (scale T 0.01), direction = normalize_vec T,
            Ray.color = Ray.color ray, wavelength = wavelength ray,
            Ray.intensity = Ray.intensity ray\<rparr>,
           depth + 1, segments @ [hitSegment ray depth c]) \<and>
        traceRay prismIOR prism ray depth vertices segments =
          traceRay prismIOR prism
            \<lparr>origin = add (point c) (scale T 0.01), direction = normalize_vec T,
             Ray.color = Ray.color ray, wavelength = wavelength ray,
             Ray.intensity = Ray.intensity ray\<rparr>
            (depth + 1) vertices (segments @ [hitSegment ray depth c]) \<and>
        cross T N = e * cross L N \<and> dot T N = - sqrt cs \<and>
        (mag L = 1 \<longrightarrow> mag T = 1 \<and> normalize_vec T = T))"
proof (intro impI, elim conjE)
  assume d: "depth \<le> 4" and l: "3 \<le> length vertices"
    and c: "findClosestHit ray vertices = Some c"
    and L: "L = direction ray" and N: "N = orientedN prism ray vertices c"
    and e: "e = n1 prismIOR prism ray vertices c / n2 prismIOR prism ray vertices c"
    and cc: "cc = - dot L N" and cs: "cs = 1 - e\<^sup>2 * (1 - cc\<^sup>2)"
    and R: "R = sub L (scale N (2 * dot L N))"
    and T: "T = add (scale L e) (scale N (e * cc - sqrt cs))"
  have e': "eta prismIOR prism ray vertices c = e" by (simp add: eta_def e)
  have cc': "c1 prism ray vertices c = cc" by (simp add: c1_def cc L N)
  have cs': "cs2 prismIOR prism ray vertices c = cs"
    by (simp add: cs2_def Let_def e' cc' cs power2_eq_square)
  have R': "reflectedDir prism ray vertices c = R"
    by (simp add: reflectedDir_def Let_def R L N)
  have T': "refractDir prismIOR prism ray vertices c = T"
    by (simp add: refractDir_def Let_def T L N e' cc' cs')
  have NN: "dot N N = 1" using orientedN_unit [OF c, of prism] by (simp add: N mag_one_iff)
  note second = traceRay_calls_second [OF d l c, of prismIOR prism segments]
  note step = traceRay_hit [OF d l c, of prismIOR prism segments]
  have first: "traceRay_calls prismIOR prism ray depth vertices segments ! 0 = (ray, depth, segments)"
    by (rule traceRay_calls_first)
  have len: "1 < length (traceRay_calls prismIOR prism ray depth vertices segments)"
    by (rule second(2))
  have out: "snd (traceRay prismIOR prism ray depth vertices segments) =
       segments @ concat (map (pushed vertices)
                            (traceRay_calls prismIOR prism ray depth vertices segments))"
    by (rule traceRay_pushed)
  have tir: "cs < 0 \<longrightarrow>
        traceRay_calls prismIOR prism ray depth vertices segments ! 1 =
          (\<lparr>origin = add (point c) (scale R 0.01), direction = normalize_vec R,
            Ray.color = Ray.color ray, wavelength = wavelength ray,
            Ray.intensity = Ray.intensity ray\<rparr>,
           depth + 1, segments @ [hitSegment ray depth c]) \<and>
        traceRay prismIOR prism ray depth vertices segments =
          traceRay prismIOR prism
            \<lparr>origin = add (point c) (scale R 0.01), direction = normalize_vec R,
             Ray.color = Ray.color ray, wavelength = wavelength ray,
             Ray.intensity = Ray.intensity ray\<rparr>
            (depth + 1) vertices (segments @ [hitSegment ray depth c]) \<and>
        dot R N = - dot L N \<and> cross R N = cross L N \<and>
        (mag L = 1 \<longrightarrow> mag R = 1 \<and> normalize_vec R = R)"
  proof (intro impI conjI)
    assume neg: "cs < 0"
    show "traceRay_calls prismIOR prism ray depth vertices segments ! 1 =
          (\<lparr>origin = add (point c) (scale R 0.01), direction = normalize_vec R,
            Ray.color = Ray.color ray, wavelength = wavelength ray,
            Ray.intensity = Ray.intensity ray\<rparr>,
           depth + 1, segments @ [hitSegment ray depth c])"
      using second(1) neg by (simp add: cs' R' childRay_def)
    show "traceRay prismIOR prism ray depth vertices segments =
          traceRay prismIOR prism
            \<lparr>origin = add (point c) (scale R 0.01), direction = normalize_vec R,
             Ray.color = Ray.color ray, wavelength = wavelength ray,
             Ray.intensity = Ray.intensity ray\<rparr>
            (depth + 1) vertices (segments @ [hitSegment ray depth c])"
      using step neg by (simp add: cs' R' childRay_def)
    show "dot R N = - dot L N" unfolding R using NN by (rule dot_reflect)
    show "cross R N = cross L N" unfolding R by (rule cross_reflect)
  next
    assume "mag L = 1"
    then have "mag (direction ray) = 1" by (simp add: L)
    from reflectedDir_unit [OF c this, of prism] show u: "mag R = 1" by (simp add: R')
    show "normalize_vec R = R" using u by (rule normalize_vec_unit)
  qed
  have refr: "0 \<le> cs \<longrightarrow>
        traceRay_calls prismIOR prism ray depth vertices segments ! 1 =
          (\<lparr>origin = add (point c) (scale T 0.01), direction = normalize_vec T,
            Ray.color = Ray.color ray, wavelength = wavelength ray,
            Ray.intensity = Ray.intensity ray\<rparr>,
           depth + 1, segments @ [hitSegment ray depth c]) \<and>
        traceRay prismIOR prism ray depth vertices segments =
          traceRay prismIOR prism
            \<lparr>origin = add (point c) (scale T 0.01), direction = normalize_vec T,
             Ray.color = Ray.color ray, wavelength = wavelength ray,
             Ray.intensity = Ray.intensity ray\<rparr>
            (depth + 1) vertices (segments @ [hitSegment ray depth c]) \<and>
        cross T N = e * cross L N \<and> dot T N = - sqrt cs \<and>
        (mag L = 1 \<longrightarrow> mag T = 1 \<and> normalize_vec T = T)"
  proof (intro impI conjI)
    assume pos: "0 \<le> cs"
    show "traceRay_calls prismIOR prism ray depth vertices segments ! 1 =
          (\<lparr>origin = add (point c) (scale T 0.01), direction = normalize_vec T,
            Ray.color = Ray.color ray, wavelength = wavelength ray,
            Ray.intensity = Ray.intensity ray\<rparr>,
           depth + 1, segments @ [hitSegment ray depth c])"
      using second(1) pos by (simp add: cs' T' childRay_def)
    show "traceRay prismIOR prism ray depth vertices segments =
          traceRay prismIOR prism
            \<lparr>origin = add (point c) (scale T 0.01), direction = normalize_vec T,
             Ray.color = Ray.color ray, wavelength = wavelength ray,
             Ray.intensity = Ray.intensity ray\<rparr>
            (depth + 1) vertices (segments @ [hitSegment ray depth c])"
      using step pos by (simp add: cs' T' childRay_def)
    show "cross T N = e * cross L N" unfolding T by (rule cross_refract)
    have "dot T N = e * dot L N + (e * cc - sqrt cs)" unfolding T using NN by (rule dot_refract)
    then show "dot T N = - sqrt cs" by (simp add: cc)
  next
    assume pos: "0 \<le> cs" and "mag L = 1"
    then have "mag (direction ray) = 1" by (simp add: L)
    from refractDir_unit [OF c this, of prismIOR prism] pos show u: "mag T = 1"
      by (simp add: T' cs')
    show "normalize_vec T = T" using u by (rule normalize_vec_unit)
  qed
  from first len out tir refr
  show "traceRay_calls prismIOR prism ray depth vertices segments ! 0 = (ray, depth, segments) \<and>
     1 < length (traceRay_calls prismIOR prism ray depth vertices segments) \<and>
     snd (traceRay prismIOR prism ray depth vertices segments) =
       segments @ concat (map (pushed vertices)
                            (traceRay_calls prismIOR prism ray depth vertices segments)) \<and>
     (cs < 0 \<longrightarrow>
        traceRay_calls prismIOR prism ray depth vertices segments ! 1 =
          (\<lparr>origin = add (point c) (scale R 0.01), direction = normalize_vec R,
            Ray.color = Ray.color ray, wavelength = wavelength ray,
            Ray.intensity = Ray.intensity ray\<rparr>,
           depth + 1, segments @ [hitSegment ray depth c]) \<and>
        traceRay prismIOR prism ray depth vertices segments =
          traceRay prismIOR prism
            \<lparr>origin = add (point c) (scale R 0.01), direction = normalize_vec R,
             Ray.color = Ray.color ray, wavelength = wavelength ray,
             Ray.intensity = Ray.intensity ray\<rparr>
            (depth + 1) vertices (segments @ [hitSegment ray depth c]) \<and>
        dot R N = - dot L N \<and> cross R N = cross L N \<and>
        (mag L = 1 \<longrightarrow> mag R = 1 \<and> normalize_vec R = R)) \<and>
     (0 \<le> cs \<longrightarrow>
        traceRay_calls prismIOR prism ray depth vertices segments ! 1 =
          (\<lparr>origin = add (point c) (scale T 0.01), direction = normalize_vec T,
            Ray.color = Ray.color ray, wavelength = wavelength ray,
            Ray.intensity = Ray.intensity ray\<rparr>,
           depth + 1, segments @ [hitSegment ray depth c]) \<and>
        traceRay prismIOR prism ray depth vertices segments =
          traceRay prismIOR prism
            \<lparr>origin = add (point c) (scale T 0.01), direction = normalize_vec T,
             Ray.color = Ray.color ray, wavelength = wavelength ray,
             Ray.intensity = Ray.intensity ray\<rparr>
            (depth + 1) vertices (segments @ [hitSegment ray depth c]) \<and>
        cross T N = e * cross L N \<and> dot T N = - sqrt cs \<and>
        (mag L = 1 \<longrightarrow> mag T = 1 \<and> normalize_vec T = T))"
    by (intro conjI)
qed

lemma mag_oblique: "mag \<lparr>x = 3 / 5, y = 4 / 5\<rparr> = 1" "mag \<lparr>x = - (3 / 5), y = 4 / 5\<rparr> = 1"
  by (simp_all add: mag_def)

theorem hit_child_ray_witness:
  "(0::int) \<le> 4 \<and> 3 \<le> length ex_vertices \<and>
   findClosestHit ex_oblique ex_vertices = Some (ex_hit \<lparr>x = 1, y = 4 / 3\<rparr> (5 / 3) \<lparr>x = - 1, y = 0\<rparr>) \<and>
   n2 (3 / 2) ex_prism ex_oblique ex_vertices (ex_hit \<lparr>x = 1, y = 4 / 3\<rparr> (5 / 3) \<lparr>x = - 1, y = 0\<rparr>) \<noteq> 0 \<and>
   cs2 (3 / 2) ex_prism ex_oblique ex_vertices (ex_hit \<lparr>x = 1, y = 4 / 3\<rparr> (5 / 3) \<lparr>x = - 1, y = 0\<rparr>) < 0 \<and>
   mag (direction ex_oblique) = 1 \<and>
   traceRay_calls (3 / 2) ex_prism ex_oblique 0 ex_vertices [] ! 0 = (ex_oblique, 0, []) \<and>
   traceRay_calls (3 / 2) ex_prism ex_oblique 0 ex_vertices [] ! 1 =
     (ex_ray (add \<lparr>x = 1, y = 4 / 3\<rparr> (scale \<lparr>x = - (3 / 5), y = 4 / 5\<rparr> 0.01)) \<lparr>x = - (3 / 5), y = 4 / 5\<rparr>,
      0 + 1,
      [] @ [hitSegment ex_oblique 0 (ex_hit \<lparr>x = 1, y = 4 / 3\<rparr> (5 / 3) \<lparr>x = - 1, y = 0\<rparr>)]) \<and>
   findClosestHit ex_entering ex_vertices = Some (ex_hit \<lparr>x = 1, y = 1\<rparr> 1 \<lparr>x = 1, y = 0\<rparr>) \<and>
   n2 (3 / 2) ex_prism ex_entering ex_vertices (ex_hit \<lparr>x = 1, y = 1\<rparr> 1 \<lparr>x = 1, y = 0\<rparr>) \<noteq> 0 \<and>
   0 \<le> cs2 (3 / 2) ex_prism ex_entering ex_vertices (ex_hit \<lparr>x = 1, y = 1\<rparr> 1 \<lparr>x = 1, y = 0\<rparr>) \<and>
   mag (direction ex_entering) = 1 \<and>
   traceRay_calls (3 / 2) ex_prism ex_entering 0 ex_vertices [] ! 1 =
     (ex_ray (add \<lparr>x = 1, y = 1\<rparr> (scale \<lparr>x = - 1, y = 0\<rparr> 0.01)) \<lparr>x = - 1, y = 0\<rparr>,
      0 + 1,
      [] @ [hitSegment ex_entering 0 (ex_hit \<lparr>x = 1, y = 1\<rparr> 1 \<lparr>x = 1, y = 0\<rparr>)])"
proof -
  let ?cA = "ex_hit \<lparr>x = 1, y = 4 / 3\<rparr> (5 / 3) \<lparr>x = - 1, y = 0\<rparr>"
  let ?cB = "ex_hit \<lparr>x = 1, y = 1\<rparr> 1 \<lparr>x = 1, y = 0\<rparr>"
  let ?TA = "add (scale \<lparr>x = 3 / 5, y = 4 / 5\<rparr> (3 / 2))
               (scale \<lparr>x = - 1, y = 0\<rparr> (3 / 2 * (3 / 5) - sqrt (- (11 / 25))))"
  let ?RB = "sub \<lparr>x = - 1, y = 0\<rparr> (scale \<lparr>x = 1, y = 0\<rparr> (2 * dot \<lparr>x = - 1, y = 0\<rparr> \<lparr>x = 1, y = 0\<rparr>))"
  have base: "(0::int) \<le> 4" "3 \<le> length ex_vertices" by simp_all
  have n2A: "n2 (3 / 2) ex_prism ex_oblique ex_vertices ?cA \<noteq> 0"
    by (simp add: n2_def ex_oblique_values)
  have n2B: "n2 (3 / 2) ex_prism ex_entering ex_vertices ?cB \<noteq> 0"
    by (simp add: ex_entering_values)
  have csA: "cs2 (3 / 2) ex_prism ex_oblique ex_vertices ?cA < 0"
    by (simp add: ex_oblique_values)
  have csB: "0 \<le> cs2 (3 / 2) ex_prism ex_entering ex_vertices ?cB"
    by (simp add: ex_entering_values)
  have mA: "mag (direction ex_oblique) = 1" by (simp add: mag_oblique)
  have mB: "mag (direction ex_entering) = 1" by (simp add: mag_1_0)
  have hypA: "(0::int) \<le> 4 \<and> 3 \<le> length ex_vertices \<and>
     findClosestHit ex_oblique ex_vertices = Some ?cA \<and>
     n2 (3 / 2) ex_prism ex_oblique ex_vertices ?cA \<noteq> 0 \<and>
     \<lparr>x = 3 / 5, y = 4 / 5\<rparr> = direction ex_oblique \<and>
     \<lparr>x = - 1, y = 0\<rparr> = orientedN ex_prism ex_oblique ex_vertices ?cA \<and>
     3 / 2 = n1 (3 / 2) ex_prism ex_oblique ex_vertices ?cA / n2 (3 / 2) ex_prism ex_oblique ex_vertices ?cA \<and>
     3 / 5 = - dot \<lparr>x = 3 / 5, y = 4 / 5\<rparr> \<lparr>x = - 1, y = 0\<rparr> \<and>
     - (11 / 25) = (1::real) - (3 / 2)\<^sup>2 * (1 - (3 / 5)\<^sup>2) \<and>
     \<lparr>x = - (3 / 5), y = 4 / 5\<rparr> =
       sub \<lparr>x = 3 / 5, y = 4 / 5\<rparr> (scale \<lparr>x = - 1, y = 0\<rparr> (2 * dot \<lparr>x = 3 / 5, y = 4 / 5\<rparr> \<lparr>x = - 1, y = 0\<rparr>)) \<and>
     ?TA = add (scale \<lparr>x = 3 / 5, y = 4 / 5\<rparr> (3 / 2))
               (scale \<lparr>x = - 1, y = 0\<rparr> (3 / 2 * (3 / 5) - sqrt (- (11 / 25))))"
    using ex_oblique_closest n2A ex_oblique_values(3) [of "\<lparr>x = 1, y = 4 / 3\<rparr>" "5 / 3" "\<lparr>x = - 1, y = 0\<rparr>"]
    by (simp add: ex_oblique_values(2) eta_def dot_def sub_def scale_def power2_eq_square)
  note A = hit_child_ray [where depth = 0 and vertices = ex_vertices and ray = ex_oblique
      and prism = ex_prism and prismIOR = "3 / 2" and segments = "[]" and c = ?cA
      and L = "\<lparr>x = 3 / 5, y = 4 / 5\<rparr>" and N = "\<lparr>x = - 1, y = 0\<rparr>" and e = "3 / 2"
      and cc = "3 / 5" and cs = "- (11 / 25)" and R = "\<lparr>x = - (3 / 5), y = 4 / 5\<rparr>" and T = ?TA,
      THEN mp, OF hypA]
  note A0 = A [THEN conjunct1]
  have neg: "- (11 / 25) < (0::real)" by simp
  note A1 = A [THEN conjunct2, THEN conjunct2, THEN conjunct2, THEN conjunct1, THEN mp, OF neg, THEN conjunct1]
  have A2: "traceRay_calls (3 / 2) ex_prism ex_oblique 0 ex_vertices [] ! 1 =
     (ex_ray (add \<lparr>x = 1, y = 4 / 3\<rparr> (scale \<lparr>x = - (3 / 5), y = 4 / 5\<rparr> 0.01)) \<lparr>x = - (3 / 5), y = 4 / 5\<rparr>,
      0 + 1, [] @ [hitSegment ex_oblique 0 ?cA])"
    using A1 by (simp add: normalize_vec_unit mag_oblique)
  have hypB: "(0::int) \<le> 4 \<and> 3 \<le> length ex_vertices \<and>
     findClosestHit ex_entering ex_vertices = Some ?cB \<and>
     n2 (3 / 2) ex_prism ex_entering ex_vertices ?cB \<noteq> 0 \<and>
     \<lparr>x = - 1, y = 0\<rparr> = direction ex_entering \<and>
     \<lparr>x = 1, y = 0\<rparr> = orientedN ex_prism ex_entering ex_vertices ?cB \<and>
     2 / 3 = n1 (3 / 2) ex_prism ex_entering ex_vertices ?cB / n2 (3 / 2) ex_prism ex_entering ex_vertices ?cB \<and>
     1 = - dot \<lparr>x = - 1, y = 0\<rparr> \<lparr>x = 1, y = 0\<rparr> \<and>
     1 = (1::real) - (2 / 3)\<^sup>2 * (1 - 1\<^sup>2) \<and>
     ?RB = sub \<lparr>x = - 1, y = 0\<rparr> (scale \<lparr>x = 1, y = 0\<rparr> (2 * dot \<lparr>x = - 1, y = 0\<rparr> \<lparr>x = 1, y = 0\<rparr>)) \<and>
     \<lparr>x = - 1, y = 0\<rparr> = add (scale \<lparr>x = - 1, y = 0\<rparr> (2 / 3)) (scale \<lparr>x = 1, y = 0\<rparr> (2 / 3 * 1 - sqrt 1))"
    using ex_entering_closest n2B
    by (simp add: ex_entering_values dot_def add_def scale_def)
  note B = hit_child_ray [where depth = 0 and vertices = ex_vertices and ray = ex_entering
      and prism = ex_prism and prismIOR = "3 / 2" and segments = "[]" and c = ?cB
      and L = "\<lparr>x = - 1, y = 0\<rparr>" and N = "\<lparr>x = 1, y = 0\<rparr>" and e = "2 / 3"
      and cc = 1 and cs = 1 and R = ?RB and T = "\<lparr>x = - 1, y = 0\<rparr>",
      THEN mp, OF hypB]
  have pos: "(0::real) \<le> 1" by simp
  note B1 = B [THEN conjunct2, THEN conjunct2, THEN conjunct2, THEN conjunct2, THEN mp, OF pos, THEN conjunct1]
  have B2: "traceRay_calls (3 / 2) ex_prism ex_entering 0 ex_vertices [] ! 1 =
     (ex_ray (add \<lparr>x = 1, y = 1\<rparr> (scale \<lparr>x = - 1, y = 0\<rparr> 0.01)) \<lparr>x = - 1, y = 0\<rparr>,
      0 + 1, [] @ [hitSegment ex_entering 0 ?cB])"
    using B1 by (simp add: normalize_vec_unit mag_1_0)
  from base ex_oblique_closest n2A csA mA A0 A2 ex_entering_closest n2B csB mB B2
  show ?thesis by blast
qed

section \<open>The prism vertices: facts\<close>

lemma cos_two_thirds_pi: "cos (2 * pi / 3) = - 1 / 2"
proof -
  have "2 * pi / 3 = pi - pi / 3" by simp
  then show ?thesis by (simp only: cos_pi_minus cos_60)
qed

lemma sin_two_thirds_pi: "sin (2 * pi / 3) = sqrt 3 / 2"
proof -
  have "2 * pi / 3 = pi - pi / 3" by simp
  then show ?thesis by (simp only: sin_pi_minus sin_60)
qed

lemma cos_four_thirds_pi: "cos (4 * pi / 3) = - 1 / 2"
proof -
  have "4 * pi / 3 = pi / 3 + pi" by simp
  then show ?thesis by (simp only: cos_periodic_pi cos_60)
qed

lemma sin_four_thirds_pi: "sin (4 * pi / 3) = - (sqrt 3 / 2)"
proof -
  have "4 * pi / 3 = pi / 3 + pi" by simp
  then show ?thesis by (simp only: sin_periodic_pi sin_60)
qed

lemma distance_sym: "distance a b = distance b a"
  by (simp add: distance_def power2_commute)

lemma chord_algebra:
  fixes r A B C D :: real
  shows "(r * A - r * C)\<^sup>2 + (r * B - r * D)\<^sup>2 =
         r\<^sup>2 * ((A\<^sup>2 + B\<^sup>2) + (C\<^sup>2 + D\<^sup>2) - 2 * (A * C + B * D))"
  by (simp add: power2_eq_square algebra_simps)

lemma chord_sq:
  fixes r u d :: real
  shows "(r * cos (u + d) - r * cos u)\<^sup>2 + (r * sin (u + d) - r * sin u)\<^sup>2 = r\<^sup>2 * (2 - 2 * cos d)"
proof -
  have "cos (u + d) * cos u + sin (u + d) * sin u = cos ((u + d) - u)"
    by (simp only: cos_diff)
  then have "cos (u + d) * cos u + sin (u + d) * sin u = cos d" by simp
  then show ?thesis
    unfolding chord_algebra by simp
qed

lemma circumradius_sq: "((s::real) / sqrt 3)\<^sup>2 * 3 = s\<^sup>2"
  by (simp add: power_divide)

lemma chord_third:
  assumes "0 \<le> s" "cos d = - 1 / 2"
  shows "sqrt (((c + s / sqrt 3 * cos (u + d)) - (c + s / sqrt 3 * cos u))\<^sup>2 +
               ((e + s / sqrt 3 * sin (u + d)) - (e + s / sqrt 3 * sin u))\<^sup>2) = s"
proof -
  have "((c + s / sqrt 3 * cos (u + d)) - (c + s / sqrt 3 * cos u))\<^sup>2 +
        ((e + s / sqrt 3 * sin (u + d)) - (e + s / sqrt 3 * sin u))\<^sup>2 =
        (s / sqrt 3 * cos (u + d) - s / sqrt 3 * cos u)\<^sup>2 +
        (s / sqrt 3 * sin (u + d) - s / sqrt 3 * sin u)\<^sup>2"
    by simp
  also have "\<dots> = (s / sqrt 3)\<^sup>2 * (2 - 2 * cos d)" by (rule chord_sq)
  also have "\<dots> = (s / sqrt 3)\<^sup>2 * 3" by (simp add: assms(2))
  also have "\<dots> = s\<^sup>2" by (rule circumradius_sq)
  finally show ?thesis using assms(1) by simp
qed


lemma getPrismVertices_list:
  "getPrismVertices p =
     [\<lparr>x = x (center p) + sideLength p / sqrt 3 * cos (rotation p - pi / 2),
       y = y (center p) + sideLength p / sqrt 3 * sin (rotation p - pi / 2)\<rparr>,
      \<lparr>x = x (center p) + sideLength p / sqrt 3 * cos (rotation p - pi / 2 + 2 * pi / 3),
       y = y (center p) + sideLength p / sqrt 3 * sin (rotation p - pi / 2 + 2 * pi / 3)\<rparr>,
      \<lparr>x = x (center p) + sideLength p / sqrt 3 * cos (rotation p - pi / 2 + 4 * pi / 3),
       y = y (center p) + sideLength p / sqrt 3 * sin (rotation p - pi / 2 + 4 * pi / 3)\<rparr>]"
  by (simp add: getPrismVertices_def Let_def)

lemma getPrismVertices_sides:
  assumes "0 \<le> sideLength p"
  shows "distance (getPrismVertices p ! 0) (getPrismVertices p ! 1) = sideLength p"
    and "distance (getPrismVertices p ! 1) (getPrismVertices p ! 2) = sideLength p"
    and "distance (getPrismVertices p ! 0) (getPrismVertices p ! 2) = sideLength p"
proof -
  let ?a = "rotation p - pi / 2"
  show "distance (getPrismVertices p ! 0) (getPrismVertices p ! 1) = sideLength p"
    unfolding getPrismVertices_list distance_def
    using chord_third [OF assms cos_two_thirds_pi, of "x (center p)" ?a "y (center p)"]
    by simp
  show "distance (getPrismVertices p ! 0) (getPrismVertices p ! 2) = sideLength p"
    unfolding getPrismVertices_list distance_def
    using chord_third [OF assms cos_four_thirds_pi, of "x (center p)" ?a "y (center p)"]
    by simp
  have "?a + 4 * pi / 3 = (?a + 2 * pi / 3) + 2 * pi / 3" by simp
  then show "distance (getPrismVertices p ! 1) (getPrismVertices p ! 2) = sideLength p"
    unfolding getPrismVertices_list distance_def
    using chord_third [OF assms cos_two_thirds_pi, of "x (center p)" "?a + 2 * pi / 3" "y (center p)"]
    by simp
qed

lemma three_directions_sum:
  fixes a :: real
  shows "cos a + cos (a + 2 * pi / 3) + cos (a + 4 * pi / 3) = 0"
    and "sin a + sin (a + 2 * pi / 3) + sin (a + 4 * pi / 3) = 0"
  unfolding cos_add sin_add cos_two_thirds_pi sin_two_thirds_pi cos_four_thirds_pi sin_four_thirds_pi
  by (simp_all add: algebra_simps)

lemma getPrismVertices_centroid:
  "x (getPrismVertices p ! 0) + x (getPrismVertices p ! 1) + x (getPrismVertices p ! 2) = 3 * x (center p)"
  "y (getPrismVertices p ! 0) + y (getPrismVertices p ! 1) + y (getPrismVertices p ! 2) = 3 * y (center p)"
proof -
  let ?a = "rotation p - pi / 2" and ?r = "sideLength p / sqrt 3"
  have "x (getPrismVertices p ! 0) + x (getPrismVertices p ! 1) + x (getPrismVertices p ! 2) =
        3 * x (center p) + ?r * (cos ?a + cos (?a + 2 * pi / 3) + cos (?a + 4 * pi / 3))"
    unfolding getPrismVertices_list by (simp add: distrib_left)
  also have "\<dots> = 3 * x (center p) + ?r * 0"
    by (simp only: three_directions_sum)
  finally show "x (getPrismVertices p ! 0) + x (getPrismVertices p ! 1) + x (getPrismVertices p ! 2) = 3 * x (center p)"
    by simp
  have "y (getPrismVertices p ! 0) + y (getPrismVertices p ! 1) + y (getPrismVertices p ! 2) =
        3 * y (center p) + ?r * (sin ?a + sin (?a + 2 * pi / 3) + sin (?a + 4 * pi / 3))"
    unfolding getPrismVertices_list by (simp add: distrib_left)
  also have "\<dots> = 3 * y (center p) + ?r * 0"
    by (simp only: three_directions_sum)
  finally show "y (getPrismVertices p ! 0) + y (getPrismVertices p ! 1) + y (getPrismVertices p ! 2) = 3 * y (center p)"
    by simp
qed

lemma getPrismVertices_top:
  assumes "rotation p = 0"
  shows "x (getPrismVertices p ! 0) = x (center p)"
    and "y (getPrismVertices p ! 0) = y (center p) - sideLength p / sqrt 3"
    and "y (getPrismVertices p ! 1) = y (center p) + sideLength p / sqrt 3 / 2"
    and "y (getPrismVertices p ! 2) = y (center p) + sideLength p / sqrt 3 / 2"
proof -
  have "5 * pi / 6 = pi - pi / 6" by simp
  then have s2: "sin (5 * pi / 6) = 1 / 2" by (simp only: sin_pi_minus sin_30)
  show "x (getPrismVertices p ! 0) = x (center p)"
    "y (getPrismVertices p ! 0) = y (center p) - sideLength p / sqrt 3"
    unfolding getPrismVertices_list by (simp_all add: assms)
  show "y (getPrismVertices p ! 1) = y (center p) + sideLength p / sqrt 3 / 2"
    "y (getPrismVertices p ! 2) = y (center p) + sideLength p / sqrt 3 / 2"
    unfolding getPrismVertices_list by (simp_all add: assms sin_30 s2)
qed


text \<open>
  Claim C6. The prism-vertex function returns exactly three vertices, at
  center + (s / sqrt 3) * (cos a, sin a) for the angles a = rotation - pi/2,
  rotation - pi/2 + 2 pi/3 and rotation - pi/2 + 4 pi/3. For a positive side length s
  the distance between any two distinct vertices is s, and the vertices sum to three
  times the center (the triangle is centered there). With rotation 0, vertex 0 has the x
  of the center and lies s / sqrt 3 above it: the y axis of the canvas points down, so
  above is the smaller y, and vertex 0 is then the topmost of the three.
\<close>

theorem getPrismVertices_equilateral:
  "getPrismVertices p =
     [\<lparr>x = x (center p) + sideLength p / sqrt 3 * cos (rotation p - pi / 2),
       y = y (center p) + sideLength p / sqrt 3 * sin (rotation p - pi / 2)\<rparr>,
      \<lparr>x = x (center p) + sideLength p / sqrt 3 * cos (rotation p - pi / 2 + 2 * pi / 3),
       y = y (center p) + sideLength p / sqrt 3 * sin (rotation p - pi / 2 + 2 * pi / 3)\<rparr>,
      \<lparr>x = x (center p) + sideLength p / sqrt 3 * cos (rotation p - pi / 2 + 4 * pi / 3),
       y = y (center p) + sideLength p / sqrt 3 * sin (rotation p - pi / 2 + 4 * pi / 3)\<rparr>] \<and>
   length (getPrismVertices p) = 3 \<and>
   (0 < sideLength p \<longrightarrow>
      (\<forall>i<3. \<forall>j<3. i \<noteq> j \<longrightarrow>
         distance (getPrismVertices p ! i) (getPrismVertices p ! j) = sideLength p)) \<and>
   x (getPrismVertices p ! 0) + x (getPrismVertices p ! 1) + x (getPrismVertices p ! 2) = 3 * x (center p) \<and>
   y (getPrismVertices p ! 0) + y (getPrismVertices p ! 1) + y (getPrismVertices p ! 2) = 3 * y (center p) \<and>
   (rotation p = 0 \<longrightarrow>
      x (getPrismVertices p ! 0) = x (center p) \<and>
      y (getPrismVertices p ! 0) = y (center p) - sideLength p / sqrt 3 \<and>
      (0 < sideLength p \<longrightarrow>
         y (getPrismVertices p ! 0) < y (center p) \<and>
         y (getPrismVertices p ! 0) < y (getPrismVertices p ! 1) \<and>
         y (getPrismVertices p ! 0) < y (getPrismVertices p ! 2)))"
proof (intro conjI impI allI)
  show "getPrismVertices p =
     [\<lparr>x = x (center p) + sideLength p / sqrt 3 * cos (rotation p - pi / 2),
       y = y (center p) + sideLength p / sqrt 3 * sin (rotation p - pi / 2)\<rparr>,
      \<lparr>x = x (center p) + sideLength p / sqrt 3 * cos (rotation p - pi / 2 + 2 * pi / 3),
       y = y (center p) + sideLength p / sqrt 3 * sin (rotation p - pi / 2 + 2 * pi / 3)\<rparr>,
      \<lparr>x = x (center p) + sideLength p / sqrt 3 * cos (rotation p - pi / 2 + 4 * pi / 3),
       y = y (center p) + sideLength p / sqrt 3 * sin (rotation p - pi / 2 + 4 * pi / 3)\<rparr>]"
    by (rule getPrismVertices_list)
  show "length (getPrismVertices p) = 3" by (simp add: getPrismVertices_def Let_def)
  show "x (getPrismVertices p ! 0) + x (getPrismVertices p ! 1) + x (getPrismVertices p ! 2) = 3 * x (center p)"
    "y (getPrismVertices p ! 0) + y (getPrismVertices p ! 1) + y (getPrismVertices p ! 2) = 3 * y (center p)"
    by (rule getPrismVertices_centroid)+
next
  fix i j :: nat
  assume s: "0 < sideLength p" and ij: "i < 3" "j < 3" "i \<noteq> j"
  from s have s0: "0 \<le> sideLength p" by simp
  note sides = getPrismVertices_sides [OF s0]
  from ij consider "i = 0 \<and> j = 1" | "i = 1 \<and> j = 0" | "i = 1 \<and> j = 2" | "i = 2 \<and> j = 1"
    | "i = 0 \<and> j = 2" | "i = 2 \<and> j = 0" by (auto simp: less_3_cases)
  then show "distance (getPrismVertices p ! i) (getPrismVertices p ! j) = sideLength p"
  proof cases
    case 1 then show ?thesis using sides(1) by simp
  next
    case 2 then show ?thesis using sides(1) distance_sym [of "getPrismVertices p ! 1"] by simp
  next
    case 3 then show ?thesis using sides(2) by simp
  next
    case 4 then show ?thesis using sides(2) distance_sym [of "getPrismVertices p ! 2"] by simp
  next
    case 5 then show ?thesis using sides(3) by simp
  next
    case 6 then show ?thesis using sides(3) distance_sym [of "getPrismVertices p ! 2"] by simp
  qed
next
  assume r: "rotation p = 0"
  note top = getPrismVertices_top [OF r]
  show "x (getPrismVertices p ! 0) = x (center p)"
    "y (getPrismVertices p ! 0) = y (center p) - sideLength p / sqrt 3"
    by (rule top)+
  assume s: "0 < sideLength p"
  then have rpos: "0 < sideLength p / sqrt 3" by simp
  show "y (getPrismVertices p ! 0) < y (center p)"
    unfolding top using rpos by linarith
  have below: "c - r < c + r / 2" if "0 < r" for c r :: real
    using that by simp
  show "y (getPrismVertices p ! 0) < y (getPrismVertices p ! 1)"
    unfolding top using rpos by (rule below)
  show "y (getPrismVertices p ! 0) < y (getPrismVertices p ! 2)"
    unfolding top using rpos by (rule below)
qed

theorem getPrismVertices_equilateral_witness:
  "(0::real) < sideLength ex_equilateral \<and> rotation ex_equilateral = 0 \<and>
   length (getPrismVertices ex_equilateral) = 3 \<and>
   distance (getPrismVertices ex_equilateral ! 0) (getPrismVertices ex_equilateral ! 1) = 2 \<and>
   distance (getPrismVertices ex_equilateral ! 1) (getPrismVertices ex_equilateral ! 2) = 2 \<and>
   distance (getPrismVertices ex_equilateral ! 2) (getPrismVertices ex_equilateral ! 0) = 2 \<and>
   getPrismVertices ex_equilateral ! 0 = \<lparr>x = 1, y = 1 - 2 / sqrt 3\<rparr> \<and>
   y (getPrismVertices ex_equilateral ! 0) < 1"
proof -
  note A = getPrismVertices_equilateral [of ex_equilateral]
  have s: "(0::real) < sideLength ex_equilateral" and r: "rotation ex_equilateral = 0" by simp_all
  note len = A [THEN conjunct2, THEN conjunct1]
  note d = A [THEN conjunct2, THEN conjunct2, THEN conjunct1, THEN mp, OF s]
  have d01: "distance (getPrismVertices ex_equilateral ! 0) (getPrismVertices ex_equilateral ! 1) = 2"
    using d [rule_format, of 0 1] by simp
  have d12: "distance (getPrismVertices ex_equilateral ! 1) (getPrismVertices ex_equilateral ! 2) = 2"
    using d [rule_format, of 1 2] by simp
  have d20: "distance (getPrismVertices ex_equilateral ! 2) (getPrismVertices ex_equilateral ! 0) = 2"
    using d [rule_format, of 2 0] by simp
  note T = A [THEN conjunct2, THEN conjunct2, THEN conjunct2, THEN conjunct2, THEN conjunct2,
      THEN mp, OF r]
  from T s have top: "x (getPrismVertices ex_equilateral ! 0) = 1"
    "y (getPrismVertices ex_equilateral ! 0) = 1 - 2 / sqrt 3"
    "y (getPrismVertices ex_equilateral ! 0) < 1"
    by simp_all
  from top have v0: "getPrismVertices ex_equilateral ! 0 = \<lparr>x = 1, y = 1 - 2 / sqrt 3\<rparr>"
    by (simp add: Point_eq_iff)
  from s r len d01 d12 d20 v0 top(3) show ?thesis by blast
qed

section \<open>Dispersion: a larger glass index bends more\<close>

lemma sqrt_sum_gt:
  fixes A B p q :: real
  assumes "0 \<le> p" "0 \<le> q" "p\<^sup>2 \<le> A" "q\<^sup>2 < B"
  shows "p + q < sqrt A + sqrt B"
proof -
  have "p \<le> sqrt A" using assms(1,3) by (simp add: real_le_rsqrt)
  moreover have "q < sqrt B" using assms(2,4) by (simp add: real_less_rsqrt)
  ultimately show ?thesis by simp
qed

lemma sqrt_sum_lt:
  fixes A B p q :: real
  assumes "0 \<le> p" "0 \<le> q" "0 \<le> A" "0 \<le> B" "A \<le> p\<^sup>2" "B < q\<^sup>2"
  shows "sqrt A + sqrt B < p + q"
proof -
  have "sqrt A \<le> p" using assms(1,5) by (simp add: real_le_lsqrt)
  moreover have "sqrt B < q" using assms(2,4,6) by (simp add: real_less_lsqrt)
  ultimately show ?thesis by simp
qed


lemma square_less_one:
  fixes c :: real
  assumes "0 \<le> c" "c < 1"
  shows "c * c < 1"
proof -
  have "c * c \<le> c * 1" using assms by (intro mult_left_mono) simp_all
  with assms(2) show ?thesis by simp
qed

lemma bend_entering:
  fixes c ea eb :: real
  assumes c: "0 \<le> c" "c < 1" and e: "0 < eb" "eb < ea" "ea \<le> 1"
  shows "eb * (1 - c * c) + c * sqrt (1 - eb * eb * (1 - c * c))
       < ea * (1 - c * c) + c * sqrt (1 - ea * ea * (1 - c * c))"
proof -
  define s where "s = 1 - c * c"
  define A where "A = 1 - ea * ea * s"
  define B where "B = 1 - eb * eb * s"
  have cc: "c * c < 1" using c by (rule square_less_one)
  then have s: "0 < s" by (simp add: s_def)
  have ea2: "ea * ea \<le> 1" using e by (simp add: mult_le_one)
  have eb2: "eb * eb < 1" using e by (intro square_less_one) simp_all
  have "(c * ea)\<^sup>2 = ea * ea * (1 - s)" by (simp add: s_def power2_eq_square algebra_simps)
  also have "\<dots> \<le> A" using ea2 by (simp add: A_def algebra_simps)
  finally have pA: "(c * ea)\<^sup>2 \<le> A" .
  have "(c * eb)\<^sup>2 = eb * eb * (1 - s)" by (simp add: s_def power2_eq_square algebra_simps)
  also have "\<dots> < B" using eb2 by (simp add: B_def algebra_simps)
  finally have pB: "(c * eb)\<^sup>2 < B" .
  have A0: "0 \<le> A" using pA zero_le_power2 [of "c * ea"] by linarith
  have B0: "0 < B" using pB zero_le_power2 [of "c * eb"] by linarith
  have sum: "c * ea + c * eb < sqrt A + sqrt B"
    using c(1) e pA pB by (intro sqrt_sum_gt) simp_all
  have pos: "0 < sqrt A + sqrt B" using A0 B0 by (simp add: add_nonneg_pos)
  have d: "0 < s * (ea - eb)" using s e by simp
  have "c * (sqrt B - sqrt A) * (sqrt A + sqrt B) = c * (B - A)"
    using A0 B0 by (simp add: algebra_simps)
  also have "\<dots> = s * (ea - eb) * (c * ea + c * eb)"
    by (simp add: A_def B_def algebra_simps)
  also have "\<dots> < s * (ea - eb) * (sqrt A + sqrt B)"
    using d sum by (rule mult_strict_left_mono [rotated])
  finally have "c * (sqrt B - sqrt A) < s * (ea - eb)"
    using pos by simp
  then have "eb * s + c * sqrt B < ea * s + c * sqrt A"
    by (simp add: algebra_simps)
  then show ?thesis by (simp add: A_def B_def s_def)
qed


lemma bend_exiting:
  fixes c ea eb :: real
  assumes c: "0 \<le> c" "c < 1" and e: "1 \<le> ea" "ea < eb"
    and r: "0 \<le> 1 - eb * eb * (1 - c * c)"
  shows "eb * (1 - c * c) + c * sqrt (1 - eb * eb * (1 - c * c))
       < ea * (1 - c * c) + c * sqrt (1 - ea * ea * (1 - c * c))"
proof -
  define s where "s = 1 - c * c"
  define A where "A = 1 - ea * ea * s"
  define B where "B = 1 - eb * eb * s"
  have s: "0 < s" using square_less_one [OF c] by (simp add: s_def)
  have B0: "0 \<le> B" using r by (simp add: B_def s_def)
  have ea2: "1 \<le> ea * ea" using e(1) mult_mono [of 1 ea 1 ea] by simp
  have eab: "ea * ea < eb * eb" using e by (intro mult_strict_mono) simp_all
  then have eb2: "1 < eb * eb" using ea2 by simp
  have AB: "B < A" using eab s by (simp add: A_def B_def)
  then have A0: "0 < A" using B0 by simp
  have "A \<le> ea * ea * (1 - s)" using ea2 by (simp add: A_def algebra_simps)
  also have "\<dots> = (c * ea)\<^sup>2" by (simp add: s_def power2_eq_square algebra_simps)
  finally have pA: "A \<le> (c * ea)\<^sup>2" .
  have "B < eb * eb * (1 - s)" using eb2 by (simp add: B_def algebra_simps)
  also have "\<dots> = (c * eb)\<^sup>2" by (simp add: s_def power2_eq_square algebra_simps)
  finally have pB: "B < (c * eb)\<^sup>2" .
  have sum: "sqrt A + sqrt B < c * ea + c * eb"
    using c(1) e A0 B0 pA pB by (intro sqrt_sum_lt) simp_all
  have pos: "0 < sqrt A + sqrt B" using A0 B0 by (simp add: add_pos_nonneg)
  have d: "0 < s * (eb - ea)" using s e by simp
  have "s * (eb - ea) * (sqrt A + sqrt B) < s * (eb - ea) * (c * ea + c * eb)"
    using d sum by (rule mult_strict_left_mono [rotated])
  also have "\<dots> = c * (A - B)"
    by (simp add: A_def B_def algebra_simps)
  also have "\<dots> = c * (sqrt A - sqrt B) * (sqrt A + sqrt B)"
    using A0 B0 by (simp add: algebra_simps)
  finally have "s * (eb - ea) < c * (sqrt A - sqrt B)"
    using pos by simp
  then have "eb * s + c * sqrt B < ea * s + c * sqrt A"
    by (simp add: algebra_simps)
  then show ?thesis by (simp add: A_def B_def s_def)
qed

lemma dot_refractDir:
  assumes "mag (direction ray) = 1"
  shows "dot (direction ray) (refractDir prismIOR prism ray vertices c) =
         eta prismIOR prism ray vertices c * (1 - c1 prism ray vertices c * c1 prism ray vertices c)
         + c1 prism ray vertices c * sqrt (cs2 prismIOR prism ray vertices c)"
proof -
  let ?L = "direction ray" and ?N = "orientedN prism ray vertices c"
  have L: "dot ?L ?L = 1" using assms by (simp add: mag_one_iff)
  have LN: "dot ?L ?N = - c1 prism ray vertices c" by (simp add: c1_def)
  let ?e = "eta prismIOR prism ray vertices c" and ?c = "c1 prism ray vertices c"
  let ?s = "sqrt (cs2 prismIOR prism ray vertices c)"
  have lin: "dot ?L (add (scale ?L a) (scale ?N b)) = a * dot ?L ?L + b * dot ?L ?N" for a b
    by (simp add: dot_def add_def scale_def algebra_simps)
  have "dot ?L (refractDir prismIOR prism ray vertices c) =
        ?e * dot ?L ?L + (?e * ?c - ?s) * dot ?L ?N"
    unfolding refractDir_def Let_def by (rule lin)
  also have "\<dots> = ?e * 1 + (?e * ?c - ?s) * (- ?c)"
    by (simp only: L LN)
  also have "\<dots> = ?e * (1 - ?c * ?c) + ?c * ?s"
    by (simp add: algebra_simps)
  finally show ?thesis .
qed

lemma c1_nonneg: "0 \<le> c1 prism ray vertices c"
  by (auto simp: c1_def orientedN_def entering_def dot_scale_neg)

lemma same_direction:
  assumes "direction ra = direction rb"
  shows "entering prism ra vertices c = entering prism rb vertices c"
    and "orientedN prism ra vertices c = orientedN prism rb vertices c"
    and "c1 prism ra vertices c = c1 prism rb vertices c"
  using assms by (simp_all add: entering_def orientedN_def c1_def)


lemma bluer_bends_more:
  assumes dir: "direction ra = direction rb" and unit: "mag (direction ra) = 1"
    and w: "wavelength ra < wavelength rb" and n: "1 \<le> prismIOR + wavelength ra"
    and obl: "c1 prism ra vertices c < 1"
    and refr: "0 \<le> cs2 prismIOR prism rb vertices c"
  shows "dot (direction rb) (refractDir prismIOR prism rb vertices c)
       < dot (direction ra) (refractDir prismIOR prism ra vertices c)"
    and "0 \<le> cs2 prismIOR prism ra vertices c"
proof -
  let ?c = "c1 prism ra vertices c"
  let ?ea = "eta prismIOR prism ra vertices c" and ?eb = "eta prismIOR prism rb vertices c"
  note same = same_direction [OF dir, of prism vertices c]
  have unitb: "mag (direction rb) = 1" using unit dir by simp
  have c0: "0 \<le> ?c" by (rule c1_nonneg)
  have csa: "cs2 prismIOR prism ra vertices c = 1 - ?ea * ?ea * (1 - ?c * ?c)"
    by (simp add: cs2_def Let_def)
  have csb: "cs2 prismIOR prism rb vertices c = 1 - ?eb * ?eb * (1 - ?c * ?c)"
    by (simp add: cs2_def Let_def same(3))
  have da: "dot (direction ra) (refractDir prismIOR prism ra vertices c) =
            ?ea * (1 - ?c * ?c) + ?c * sqrt (1 - ?ea * ?ea * (1 - ?c * ?c))"
    unfolding dot_refractDir [OF unit] csa ..
  have db: "dot (direction rb) (refractDir prismIOR prism rb vertices c) =
            ?eb * (1 - ?c * ?c) + ?c * sqrt (1 - ?eb * ?eb * (1 - ?c * ?c))"
    unfolding dot_refractDir [OF unitb] csb same(3) ..
  have s0: "0 < 1 - ?c * ?c" using square_less_one [OF c0 obl] by simp
  show "dot (direction rb) (refractDir prismIOR prism rb vertices c)
       < dot (direction ra) (refractDir prismIOR prism ra vertices c)"
  proof (cases "entering prism ra vertices c")
    case True
    then have ea: "?ea = 1 / (prismIOR + wavelength ra)" and eb: "?eb = 1 / (prismIOR + wavelength rb)"
      using same(1) by (simp_all add: eta_def n1_def n2_def)
    have "0 < ?eb" "?eb < ?ea" "?ea \<le> 1"
      unfolding ea eb using w n by (simp_all add: field_simps)
    from bend_entering [OF c0 obl this] show ?thesis unfolding da db .
  next
    case False
    then have ea: "?ea = prismIOR + wavelength ra" and eb: "?eb = prismIOR + wavelength rb"
      using same(1) by (simp_all add: eta_def n1_def n2_def)
    have "1 \<le> ?ea" "?ea < ?eb" unfolding ea eb using w n by simp_all
    from bend_exiting [OF c0 obl this] refr show ?thesis unfolding da db csb by simp
  qed
  show "0 \<le> cs2 prismIOR prism ra vertices c"
  proof (cases "entering prism ra vertices c")
    case True
    then have ea: "?ea = 1 / (prismIOR + wavelength ra)"
      by (simp add: eta_def n1_def n2_def)
    have e1: "0 \<le> ?ea" "?ea \<le> 1" unfolding ea using n by (simp_all add: field_simps)
    then have "?ea * ?ea \<le> 1" by (simp add: mult_le_one)
    moreover have "1 - ?c * ?c \<le> 1" by simp
    ultimately have "?ea * ?ea * (1 - ?c * ?c) \<le> 1"
      using s0 by (simp add: mult_le_one)
    then show ?thesis unfolding csa by simp
  next
    case False
    then have ea: "?ea = prismIOR + wavelength ra" and eb: "?eb = prismIOR + wavelength rb"
      using same(1) by (simp_all add: eta_def n1_def n2_def)
    have "0 \<le> ?ea" "?ea \<le> ?eb" unfolding ea eb using w n by simp_all
    then have "?ea * ?ea \<le> ?eb * ?eb" by (intro mult_mono) simp_all
    then have "?ea * ?ea * (1 - ?c * ?c) \<le> ?eb * ?eb * (1 - ?c * ?c)"
      using s0 by simp
    with refr show ?thesis unfolding csa csb by simp
  qed
qed


lemma findClosestHit_same_path:
  assumes "origin ra = origin rb" "direction ra = direction rb"
  shows "findClosestHit ra vertices = findClosestHit rb vertices"
proof -
  have "closestHitStep ra vertices = closestHitStep rb vertices"
    by (intro ext) (simp add: closestHitStep_def edgeHit_def assms)
  then show ?thesis by (simp add: findClosestHit_def)
qed

lemma mag_slanted: "mag \<lparr>x = - (4 / 5), y = 3 / 5\<rparr> = 1"
  by (simp add: mag_def)

lemma ex_slanted_hits:
  "edgeHit ex_slanted ex_vertices 0 = Some \<lparr>point = \<lparr>x = 1, y = 3 / 4\<rparr>, t = 5 / 4, normal = \<lparr>x = 1, y = 0\<rparr>\<rparr>"
  "edgeHit ex_slanted ex_vertices 1 =
     Some \<lparr>point = \<lparr>x = - (1 / 2), y = 15 / 8\<rparr>, t = 25 / 8, normal = \<lparr>x = 3 / 5, y = - (4 / 5)\<rparr>\<rparr>"
  "edgeHit ex_slanted ex_vertices 2 = None"
  by (simp_all add: ex_eval mag_3_m4)

lemma ex_slanted_closest:
  "findClosestHit ex_slanted ex_vertices = Some (ex_hit \<lparr>x = 1, y = 3 / 4\<rparr> (5 / 4) \<lparr>x = 1, y = 0\<rparr>)"
  unfolding findClosestHit_unfold closestHitStep_def by (simp add: ex_slanted_hits del: One_nat_def)

lemma ex_slanted_values:
  "entering ex_prism ex_slanted ex_vertices (ex_hit q tv nv)"
  "c1 ex_prism ex_slanted ex_vertices (ex_hit q tv nv) = 4 / 5"
  "0 \<le> cs2 (3 / 2) ex_prism ex_violet ex_vertices (ex_hit q tv nv)"
  by (simp_all add: ex_eval_hit power2_eq_square)

lemma dot_unit_less_one:
  assumes "mag u = 1" "mag v = 1" "y u \<noteq> y v"
  shows "dot u v < 1"
proof -
  have "dot u u = 1" "dot v v = 1" using assms by (simp_all add: mag_one_iff)
  then have "2 - 2 * dot u v = (x u - x v)\<^sup>2 + (y u - y v)\<^sup>2"
    by (simp add: dot_def power2_eq_square algebra_simps)
  moreover have "0 < (y u - y v)\<^sup>2" using assms(3) by simp
  moreover have "0 \<le> (x u - x v)\<^sup>2" by simp
  ultimately show ?thesis by linarith
qed

lemma refractDir_equal_indices:
  assumes "eta prismIOR prism ray vertices c = 1"
  shows "refractDir prismIOR prism ray vertices c = direction ray"
proof -
  have "cs2 prismIOR prism ray vertices c = c1 prism ray vertices c * c1 prism ray vertices c"
    by (simp add: cs2_def Let_def assms)
  then have "sqrt (cs2 prismIOR prism ray vertices c) = c1 prism ray vertices c"
    using c1_nonneg [of prism ray vertices c] by simp
  then show ?thesis
    by (simp add: refractDir_def Let_def assms Point_eq_iff add_def scale_def)
qed

lemma ex_red_closest:
  "findClosestHit ex_red ex_vertices = Some (ex_hit \<lparr>x = 1, y = 3 / 4\<rparr> (5 / 4) \<lparr>x = 1, y = 0\<rparr>)"
  using findClosestHit_same_path [of ex_red ex_slanted ex_vertices] ex_slanted_closest by simp

lemma ex_red_values:
  "n2 1 ex_prism ex_red ex_vertices (ex_hit q tv nv) = 97 / 100"
  "n2 1 ex_prism ex_slanted ex_vertices (ex_hit q tv nv) = 1"
  "eta 1 ex_prism ex_slanted ex_vertices (ex_hit q tv nv) = 1"
  "0 \<le> cs2 1 ex_prism ex_red ex_vertices (ex_hit q tv nv)"
  "0 \<le> cs2 1 ex_prism ex_slanted ex_vertices (ex_hit q tv nv)"
  by (simp_all add: ex_eval_hit power2_eq_square)

lemma ex_entering_violet_values:
  "n2 (3 / 2) ex_prism ex_entering_violet ex_vertices (ex_hit q tv nv) = 153 / 100"
  "cs2 (3 / 2) ex_prism ex_entering_violet ex_vertices (ex_hit q tv nv) = 1"
  "refractDir (3 / 2) ex_prism ex_entering_violet ex_vertices (ex_hit q tv nv) = \<lparr>x = - 1, y = 0\<rparr>"
  by (simp_all add: ex_eval_hit)

text \<open>
  The bending order does not hold at every refraction. At perpendicular incidence no
  sample is bent, so the violet ray is not bent more than the green one. And with base
  index 1 the red sample has glass index 0.97 and is bent, while the green one, with glass
  index 1, goes straight on: the bluer of the two is bent strictly less.
\<close>

theorem spectrum_bend_counterexample:
  "findClosestHit ex_entering ex_vertices = Some (ex_hit \<lparr>x = 1, y = 1\<rparr> 1 \<lparr>x = 1, y = 0\<rparr>) \<and>
   wavelength ex_entering < wavelength ex_entering_violet \<and>
   n2 (3 / 2) ex_prism ex_entering ex_vertices (ex_hit \<lparr>x = 1, y = 1\<rparr> 1 \<lparr>x = 1, y = 0\<rparr>)
     < n2 (3 / 2) ex_prism ex_entering_violet ex_vertices (ex_hit \<lparr>x = 1, y = 1\<rparr> 1 \<lparr>x = 1, y = 0\<rparr>) \<and>
   0 \<le> cs2 (3 / 2) ex_prism ex_entering ex_vertices (ex_hit \<lparr>x = 1, y = 1\<rparr> 1 \<lparr>x = 1, y = 0\<rparr>) \<and>
   0 \<le> cs2 (3 / 2) ex_prism ex_entering_violet ex_vertices (ex_hit \<lparr>x = 1, y = 1\<rparr> 1 \<lparr>x = 1, y = 0\<rparr>) \<and>
   \<not> dot (direction ex_entering_violet)
        (refractDir (3 / 2) ex_prism ex_entering_violet ex_vertices (ex_hit \<lparr>x = 1, y = 1\<rparr> 1 \<lparr>x = 1, y = 0\<rparr>))
      < dot (direction ex_entering)
        (refractDir (3 / 2) ex_prism ex_entering ex_vertices (ex_hit \<lparr>x = 1, y = 1\<rparr> 1 \<lparr>x = 1, y = 0\<rparr>)) \<and>
   findClosestHit ex_red ex_vertices = Some (ex_hit \<lparr>x = 1, y = 3 / 4\<rparr> (5 / 4) \<lparr>x = 1, y = 0\<rparr>) \<and>
   wavelength ex_red < wavelength ex_slanted \<and>
   n2 1 ex_prism ex_red ex_vertices (ex_hit \<lparr>x = 1, y = 3 / 4\<rparr> (5 / 4) \<lparr>x = 1, y = 0\<rparr>)
     < n2 1 ex_prism ex_slanted ex_vertices (ex_hit \<lparr>x = 1, y = 3 / 4\<rparr> (5 / 4) \<lparr>x = 1, y = 0\<rparr>) \<and>
   0 \<le> cs2 1 ex_prism ex_red ex_vertices (ex_hit \<lparr>x = 1, y = 3 / 4\<rparr> (5 / 4) \<lparr>x = 1, y = 0\<rparr>) \<and>
   0 \<le> cs2 1 ex_prism ex_slanted ex_vertices (ex_hit \<lparr>x = 1, y = 3 / 4\<rparr> (5 / 4) \<lparr>x = 1, y = 0\<rparr>) \<and>
   \<not> dot (direction ex_slanted)
        (refractDir 1 ex_prism ex_slanted ex_vertices (ex_hit \<lparr>x = 1, y = 3 / 4\<rparr> (5 / 4) \<lparr>x = 1, y = 0\<rparr>))
      < dot (direction ex_red)
        (refractDir 1 ex_prism ex_red ex_vertices (ex_hit \<lparr>x = 1, y = 3 / 4\<rparr> (5 / 4) \<lparr>x = 1, y = 0\<rparr>)) \<and>
   dot (direction ex_red)
       (refractDir 1 ex_prism ex_red ex_vertices (ex_hit \<lparr>x = 1, y = 3 / 4\<rparr> (5 / 4) \<lparr>x = 1, y = 0\<rparr>))
     < dot (direction ex_slanted)
       (refractDir 1 ex_prism ex_slanted ex_vertices (ex_hit \<lparr>x = 1, y = 3 / 4\<rparr> (5 / 4) \<lparr>x = 1, y = 0\<rparr>))"
proof -
  let ?c = "ex_hit \<lparr>x = 1, y = 1\<rparr> 1 \<lparr>x = 1, y = 0\<rparr>"
  let ?d = "ex_hit \<lparr>x = 1, y = 3 / 4\<rparr> (5 / 4) \<lparr>x = 1, y = 0\<rparr>"
  have A: "\<not> dot (direction ex_entering_violet) (refractDir (3 / 2) ex_prism ex_entering_violet ex_vertices ?c)
      < dot (direction ex_entering) (refractDir (3 / 2) ex_prism ex_entering ex_vertices ?c)"
    by (simp add: ex_entering_violet_values ex_entering_values dot_def)
  have unit: "mag (direction ex_red) = 1" by (simp add: mag_slanted)
  have unit_red: "mag (refractDir 1 ex_prism ex_red ex_vertices ?d) = 1"
    using ex_red_closest unit ex_red_values(4) by (rule refractDir_unit)
  have "y (refractDir 1 ex_prism ex_red ex_vertices ?d) = 60 / 97"
    by (simp add: ex_eval_hit)
  then have "y (direction ex_red) \<noteq> y (refractDir 1 ex_prism ex_red ex_vertices ?d)"
    by simp
  from dot_unit_less_one [OF unit unit_red this]
  have red: "dot (direction ex_red) (refractDir 1 ex_prism ex_red ex_vertices ?d) < 1" .
  have "refractDir 1 ex_prism ex_slanted ex_vertices ?d = direction ex_slanted"
    using ex_red_values(3) by (rule refractDir_equal_indices)
  then have green: "dot (direction ex_slanted) (refractDir 1 ex_prism ex_slanted ex_vertices ?d) = 1"
    by (simp add: dot_def)
  with red have B':
    "dot (direction ex_red) (refractDir 1 ex_prism ex_red ex_vertices ?d)
       < dot (direction ex_slanted) (refractDir 1 ex_prism ex_slanted ex_vertices ?d)"
    by simp
  from red green have B: "\<not> dot (direction ex_slanted) (refractDir 1 ex_prism ex_slanted ex_vertices ?d)
      < dot (direction ex_red) (refractDir 1 ex_prism ex_red ex_vertices ?d)"
    by simp
  have w: "wavelength ex_entering < wavelength ex_entering_violet" "wavelength ex_red < wavelength ex_slanted"
    by simp_all
  have n: "n2 (3 / 2) ex_prism ex_entering ex_vertices ?c < n2 (3 / 2) ex_prism ex_entering_violet ex_vertices ?c"
    "n2 1 ex_prism ex_red ex_vertices ?d < n2 1 ex_prism ex_slanted ex_vertices ?d"
    by (simp_all add: ex_entering_values ex_entering_violet_values ex_red_values)
  have cs: "0 \<le> cs2 (3 / 2) ex_prism ex_entering ex_vertices ?c"
    "0 \<le> cs2 (3 / 2) ex_prism ex_entering_violet ex_vertices ?c"
    by (simp_all add: ex_entering_values ex_entering_violet_values)
  from ex_entering_closest w n cs A ex_red_closest ex_red_values(4,5) B B' show ?thesis
    by blast
qed

text \<open>
  Claim C9, amended. The spectrum table lists red, orange, yellow, green, cyan, blue,
  violet in that order, with refractive-index offsets strictly increasing from -0.03 to
  +0.03 and every intensity in (0, 1]; so along the list the glass index of the rays
  started for the samples strictly increases. Where two rays of unit direction on the
  same path meet an edge obliquely, the glass index of the redder one being at least 1
  and the bluer one being refracted: the bluer ray has the strictly larger glass index,
  both refracted directions have magnitude 1, and the refracted direction of the bluer
  ray has the strictly smaller dot product with the incident direction, that is, it is
  turned by the larger angle.
\<close>

theorem spectrum_dispersion_order:
  "map SpectrumSample.color SPECTRUM =
     [''#ff0000'', ''#ffa500'', ''#ffff00'', ''#00ff00'', ''#00ffff'', ''#0000ff'', ''#8b00ff''] \<and>
   map wlOffset SPECTRUM = [- 0.03, - 0.02, - 0.01, 0, 0.01, 0.02, 0.03] \<and>
   sorted_wrt (<) (map wlOffset SPECTRUM) \<and>
   list_all (\<lambda>s. 0 < SpectrumSample.intensity s \<and> SpectrumSample.intensity s \<le> 1) SPECTRUM \<and>
   sorted_wrt (<) (map (\<lambda>s. prismIOR + wavelength (initialRay light s)) SPECTRUM) \<and>
   (origin ra = origin rb \<and> direction ra = direction rb \<and> mag (direction ra) = 1 \<and>
    3 \<le> length vertices \<and> findClosestHit ra vertices = Some c \<and>
    wavelength ra < wavelength rb \<and> 1 \<le> prismIOR + wavelength ra \<and>
    c1 prism ra vertices c < 1 \<and> 0 \<le> cs2 prismIOR prism rb vertices c \<longrightarrow>
      (if entering prism ra vertices c
       then n2 prismIOR prism ra vertices c < n2 prismIOR prism rb vertices c
       else n1 prismIOR prism ra vertices c < n1 prismIOR prism rb vertices c) \<and>
      mag (refractDir prismIOR prism ra vertices c) = 1 \<and>
      mag (refractDir prismIOR prism rb vertices c) = 1 \<and>
      dot (direction rb) (refractDir prismIOR prism rb vertices c)
        < dot (direction ra) (refractDir prismIOR prism ra vertices c))"
proof (intro conjI impI; (elim conjE)?)
  show "map SpectrumSample.color SPECTRUM =
     [''#ff0000'', ''#ffa500'', ''#ffff00'', ''#00ff00'', ''#00ffff'', ''#0000ff'', ''#8b00ff'']"
    by (simp add: SPECTRUM_def)
  show "map wlOffset SPECTRUM = [- 0.03, - 0.02, - 0.01, 0, 0.01, 0.02, 0.03]"
    by (simp add: SPECTRUM_def)
  show "sorted_wrt (<) (map wlOffset SPECTRUM)"
    by (simp add: SPECTRUM_def)
  show "list_all (\<lambda>s. 0 < SpectrumSample.intensity s \<and> SpectrumSample.intensity s \<le> 1) SPECTRUM"
    by (simp add: SPECTRUM_def)
  show "sorted_wrt (<) (map (\<lambda>s. prismIOR + wavelength (initialRay light s)) SPECTRUM)"
    by (simp add: SPECTRUM_def initialRay_def)
next
  assume o: "origin ra = origin rb" and dir: "direction ra = direction rb"
    and unit: "mag (direction ra) = 1" and c: "findClosestHit ra vertices = Some c"
    and w: "wavelength ra < wavelength rb" and n: "1 \<le> prismIOR + wavelength ra"
    and obl: "c1 prism ra vertices c < 1" and refr: "0 \<le> cs2 prismIOR prism rb vertices c"
  note bend = bluer_bends_more [OF dir unit w n obl refr]
  have cb: "findClosestHit rb vertices = Some c"
    using c findClosestHit_same_path [OF o dir, of vertices] by simp
  have unitb: "mag (direction rb) = 1" using unit dir by simp
  show "if entering prism ra vertices c
       then n2 prismIOR prism ra vertices c < n2 prismIOR prism rb vertices c
       else n1 prismIOR prism ra vertices c < n1 prismIOR prism rb vertices c"
    using w same_direction(1) [OF dir, of prism vertices c] by (simp add: n1_def n2_def)
  show "mag (refractDir prismIOR prism ra vertices c) = 1"
    using c unit bend(2) by (rule refractDir_unit)
  show "mag (refractDir prismIOR prism rb vertices c) = 1"
    using cb unitb refr by (rule refractDir_unit)
  show "dot (direction rb) (refractDir prismIOR prism rb vertices c)
        < dot (direction ra) (refractDir prismIOR prism ra vertices c)"
    by (rule bend(1))
qed

theorem spectrum_dispersion_order_witness:
  "origin ex_slanted = origin ex_violet \<and> direction ex_slanted = direction ex_violet \<and>
   mag (direction ex_slanted) = 1 \<and> 3 \<le> length ex_vertices \<and>
   findClosestHit ex_slanted ex_vertices = Some (ex_hit \<lparr>x = 1, y = 3 / 4\<rparr> (5 / 4) \<lparr>x = 1, y = 0\<rparr>) \<and>
   wavelength ex_slanted < wavelength ex_violet \<and> 1 \<le> 3 / 2 + wavelength ex_slanted \<and>
   c1 ex_prism ex_slanted ex_vertices (ex_hit \<lparr>x = 1, y = 3 / 4\<rparr> (5 / 4) \<lparr>x = 1, y = 0\<rparr>) < 1 \<and>
   0 \<le> cs2 (3 / 2) ex_prism ex_violet ex_vertices (ex_hit \<lparr>x = 1, y = 3 / 4\<rparr> (5 / 4) \<lparr>x = 1, y = 0\<rparr>) \<and>
   n2 (3 / 2) ex_prism ex_slanted ex_vertices (ex_hit \<lparr>x = 1, y = 3 / 4\<rparr> (5 / 4) \<lparr>x = 1, y = 0\<rparr>)
     < n2 (3 / 2) ex_prism ex_violet ex_vertices (ex_hit \<lparr>x = 1, y = 3 / 4\<rparr> (5 / 4) \<lparr>x = 1, y = 0\<rparr>) \<and>
   dot (direction ex_violet)
       (refractDir (3 / 2) ex_prism ex_violet ex_vertices (ex_hit \<lparr>x = 1, y = 3 / 4\<rparr> (5 / 4) \<lparr>x = 1, y = 0\<rparr>))
     < dot (direction ex_slanted)
       (refractDir (3 / 2) ex_prism ex_slanted ex_vertices (ex_hit \<lparr>x = 1, y = 3 / 4\<rparr> (5 / 4) \<lparr>x = 1, y = 0\<rparr>))"
proof -
  let ?c = "ex_hit \<lparr>x = 1, y = 3 / 4\<rparr> (5 / 4) \<lparr>x = 1, y = 0\<rparr>"
  have hyp: "origin ex_slanted = origin ex_violet \<and> direction ex_slanted = direction ex_violet \<and>
     mag (direction ex_slanted) = 1 \<and> 3 \<le> length ex_vertices \<and>
     findClosestHit ex_slanted ex_vertices = Some ?c \<and>
     wavelength ex_slanted < wavelength ex_violet \<and> 1 \<le> 3 / 2 + wavelength ex_slanted \<and>
     c1 ex_prism ex_slanted ex_vertices ?c < 1 \<and>
     0 \<le> cs2 (3 / 2) ex_prism ex_violet ex_vertices ?c"
    using ex_slanted_closest ex_slanted_values(3) [of "\<lparr>x = 1, y = 3 / 4\<rparr>" "5 / 4" "\<lparr>x = 1, y = 0\<rparr>"]
    by (simp add: mag_slanted ex_slanted_values(2))
  note A = spectrum_dispersion_order [where ra = ex_slanted and rb = ex_violet and vertices = ex_vertices
      and prism = ex_prism and prismIOR = "3 / 2" and c = ?c,
      THEN conjunct2, THEN conjunct2, THEN conjunct2, THEN conjunct2, THEN conjunct2, THEN mp, OF hyp]
  have e: "entering ex_prism ex_slanted ex_vertices ?c" by (rule ex_slanted_values(1))
  from A e have n: "n2 (3 / 2) ex_prism ex_slanted ex_vertices ?c < n2 (3 / 2) ex_prism ex_violet ex_vertices ?c"
    by simp
  note d = A [THEN conjunct2, THEN conjunct2, THEN conjunct2]
  from hyp n d show ?thesis by blast
qed

end
